theory Spec2Isabelle
  imports Complex_Main "HOL-Library.AList" "HOL-Library.Multiset"
begin

section \<open>Metrics recorder (metrics.py)\<close>

text \<open>
  Python dictionaries keep insertion order, so a dictionary with string keys is an
  association list: \<open>map_of\<close> reads a key, \<open>AList.update\<close> overwrites a key in place or
  appends a new one at the end.

  A number stored by the recorder is a Python int or a Python float. Ints are unbounded
  and exact. Floats are not computed here: their type \<open>'f\<close> and the operations the
  recorder applies to them are parameters, the record \<open>float_arith\<close>, so every
  statement holds for the arithmetic of the Python runtime whatever it rounds to and
  wherever it raises. Time stamps are exact seconds on the wall clock (a \<open>datetime\<close> has
  microseconds and survives \<open>isoformat\<close> and \<open>fromisoformat\<close> unchanged).

  The coverage dictionary is only ever read and written at fixed keys, so it is a record;
  the two keys that \<open>get_metrics\<close> adds are optional fields. The issue dictionary is
  consumed generically (\<open>issue_type not in ...\<close>, \<open>sum(... .values())\<close>), so it stays an
  association list.
\<close>

datatype py_error =
    KeyError string
  | FileNotFoundError string
  | SyntaxError "int option" string
  | AttributeError string
  | OtherError string string

datatype 'f number = PyInt int | PyFloat 'f

text \<open>
  The float arithmetic of the runtime, as far as the recorder uses it:
  \<open>truediv x y\<close> is \<open>x / y\<close> (it raises \<open>ZeroDivisionError\<close>, and \<open>OverflowError\<close> when an
  int operand or the quotient of two ints is too large for a float);
  \<open>fmul_int x k\<close> is \<open>x * k\<close> for a float \<open>x\<close> and one of the int literals 100 and 1000,
  and \<open>plus_one x\<close> is \<open>x + 1\<close> for a float \<open>x\<close> (neither raises);
  \<open>float_sum xs\<close> is \<open>sum(xs)\<close> for numbers of which at least one is a float (it raises
  \<open>OverflowError\<close> for an int too large for a float);
  \<open>total_seconds d\<close> is \<open>timedelta.total_seconds()\<close> of a difference of \<open>d\<close> seconds.
\<close>

record 'f float_arith =
  truediv :: "'f number \<Rightarrow> 'f number \<Rightarrow> py_error + 'f"
  fmul_int :: "'f \<Rightarrow> int \<Rightarrow> 'f"
  plus_one :: "'f \<Rightarrow> 'f"
  float_sum :: "'f number list \<Rightarrow> py_error + 'f"
  total_seconds :: "rat \<Rightarrow> 'f"

record 'f coverage_stats =
  files_reviewed :: int
  lines_reviewed :: int
  total_files :: int
  total_lines :: int
  file_coverage_percent :: "'f number option"
  line_coverage_percent :: "'f number option"

record issue_detail =
  detail_type :: string
  detail_line :: "int option"
  detail_description :: "string option"

record 'f file_metric =
  fm_lines_reviewed :: int
  fm_total_lines :: int
  coverage_percent :: "'f number"
  review_time :: "'f option"
  fm_issues :: "(string \<times> int) list"
  issue_details :: "issue_detail list option"

record 'f metrics =
  review_start_time :: rat
  timing :: "(string \<times> 'f list) list"
  coverage :: "'f coverage_stats"
  issues :: "(string \<times> 'f number) list"
  file_metrics :: "(string \<times> 'f file_metric) list"

record 'f snapshot = "'f metrics" +
  review_end_time :: rat
  total_duration_seconds :: 'f

definition zero_issue_counts :: "(string \<times> int) list" where
  "zero_issue_counts =
     [(''security'', 0), (''performance'', 0), (''style'', 0), (''logic'', 0), (''other'', 0)]"

text \<open>\<open>Metrics.__init__\<close>; the argument is \<open>datetime.now()\<close>.\<close>

definition Metrics_init :: "rat \<Rightarrow> 'f metrics" where
  "Metrics_init now =
     \<lparr> review_start_time = now,
       timing = [],
       coverage = \<lparr> files_reviewed = 0, lines_reviewed = 0, total_files = 0, total_lines = 0,
                    file_coverage_percent = None, line_coverage_percent = None \<rparr>,
       issues = map (\<lambda>(k, n). (k, PyInt n)) zero_issue_counts,
       file_metrics = [] \<rparr>"

text \<open>\<open>x / y * k\<close> for an int literal \<open>k\<close>: the division may raise, the product is a float.\<close>

definition ratio_times :: "'f float_arith \<Rightarrow> 'f number \<Rightarrow> 'f number \<Rightarrow> int \<Rightarrow> py_error + 'f number" where
  "ratio_times arith x y k =
     (case truediv arith x y of
        Inl e \<Rightarrow> Inl e
      | Inr q \<Rightarrow> Inr (PyFloat (fmul_int arith q k)))"

text \<open>
  \<open>record_file_review\<close> returns the exception it raised, if any, next to the recorder as
  the call left it: the two counters are incremented before the file metric is built, so
  they stay incremented when \<open>lines_reviewed / total_lines\<close> raises, and no file metric is
  stored then.
\<close>

definition record_file_review ::
  "'f float_arith \<Rightarrow> string \<Rightarrow> int \<Rightarrow> int \<Rightarrow> 'f metrics \<Rightarrow> py_error option \<times> 'f metrics" where
  "record_file_review arith filename lines_rev total_lns m =
     (let m1 = m \<lparr> coverage := (coverage m)
                  \<lparr> files_reviewed := files_reviewed (coverage m) + 1,
                    lines_reviewed := lines_reviewed (coverage m) + lines_rev \<rparr> \<rparr>
      in case (if total_lns > 0 then ratio_times arith (PyInt lines_rev) (PyInt total_lns) 100
               else Inr (PyInt 100)) of
           Inl e \<Rightarrow> (Some e, m1)
         | Inr percent \<Rightarrow>
             (None,
              m1 \<lparr> file_metrics := AList.update filename
                     \<lparr> fm_lines_reviewed = lines_rev,
                       fm_total_lines = total_lns,
                       coverage_percent = percent,
                       review_time = None,
                       fm_issues = zero_issue_counts,
                       issue_details = None \<rparr>
                     (file_metrics m1) \<rparr>))"

definition set_total_codebase_size :: "int \<Rightarrow> int \<Rightarrow> 'f metrics \<Rightarrow> 'f metrics" where
  "set_total_codebase_size files lines m =
     m \<lparr> coverage := (coverage m) \<lparr> total_files := files, total_lines := lines \<rparr> \<rparr>"

text \<open>
  \<open>d[k] += 1\<close>: a missing key raises \<open>KeyError\<close>. The global counters are numbers (the
  keys \<open>get_metrics\<close> adds may hold floats), the per-file counters are ints.
\<close>

definition increment ::
  "'f float_arith \<Rightarrow> string \<Rightarrow> (string \<times> 'f number) list \<Rightarrow> py_error + (string \<times> 'f number) list" where
  "increment arith k d =
     (case map_of d k of
        None \<Rightarrow> Inl (KeyError k)
      | Some (PyInt n) \<Rightarrow> Inr (AList.update k (PyInt (n + 1)) d)
      | Some (PyFloat x) \<Rightarrow> Inr (AList.update k (PyFloat (plus_one arith x)) d))"

definition increment_int :: "string \<Rightarrow> (string \<times> int) list \<Rightarrow> py_error + (string \<times> int) list" where
  "increment_int k d =
     (case map_of d k of
        None \<Rightarrow> Inl (KeyError k)
      | Some n \<Rightarrow> Inr (AList.update k (n + 1) d))"

text \<open>Truth values of the optional arguments of \<open>record_issue\<close> and \<open>timed\<close>.\<close>

fun truthy_int :: "int option \<Rightarrow> bool" where
  "truthy_int None = False"
| "truthy_int (Some n) = (n \<noteq> 0)"

fun truthy_str :: "string option \<Rightarrow> bool" where
  "truthy_str None = False"
| "truthy_str (Some s) = (s \<noteq> [])"

text \<open>
  \<open>record_issue\<close> returns the exception it raised, if any, next to the recorder as the
  call left it: the global counter is already incremented when the per-file counter is
  missing.
\<close>

definition record_issue ::
  "'f float_arith \<Rightarrow> string \<Rightarrow> string \<Rightarrow> int option \<Rightarrow> string option \<Rightarrow> 'f metrics \<Rightarrow>
   py_error option \<times> 'f metrics" where
  "record_issue arith issue_type filename line_number description m =
     (let ty = (if map_of (issues m) issue_type = None then ''other'' else issue_type) in
      case increment arith ty (issues m) of
        Inl e \<Rightarrow> (Some e, m)
      | Inr iss \<Rightarrow>
          (let m1 = m \<lparr> issues := iss \<rparr> in
           case map_of (file_metrics m1) filename of
             None \<Rightarrow> (None, m1)
           | Some fm \<Rightarrow>
               (case increment_int ty (fm_issues fm) of
                  Inl e \<Rightarrow> (Some e, m1)
                | Inr fi \<Rightarrow>
                    (let fm1 = fm \<lparr> fm_issues := fi \<rparr>;
                         fm2 = (if truthy_int line_number \<or> truthy_str description
                                then fm1 \<lparr> issue_details := Some
                                  ((case issue_details fm1 of None \<Rightarrow> [] | Some ds \<Rightarrow> ds) @
                                   [\<lparr> detail_type = ty, detail_line = line_number,
                                      detail_description = description \<rparr>]) \<rparr>
                                else fm1)
                     in (None, m1 \<lparr> file_metrics := AList.update filename fm2 (file_metrics m1) \<rparr>)))))"

text \<open>
  The recording half of the wrapper that \<open>timed\<close> builds, after the wrapped function has
  returned and the float \<open>elapsed\<close> was measured.
\<close>

definition timed :: "string \<Rightarrow> string option \<Rightarrow> 'f \<Rightarrow> 'f metrics \<Rightarrow> 'f metrics" where
  "timed category filename elapsed m =
     (let tm = (if map_of (timing m) category = None
                then AList.update category [] (timing m) else timing m);
          m1 = m \<lparr> timing := AList.update category
                     ((case map_of tm category of None \<Rightarrow> [] | Some xs \<Rightarrow> xs) @ [elapsed]) tm \<rparr>
      in case filename of
           None \<Rightarrow> m1
         | Some f \<Rightarrow>
             (if f \<noteq> [] then
                (case map_of (file_metrics m1) f of
                   None \<Rightarrow> m1
                 | Some fm \<Rightarrow>
                     m1 \<lparr> file_metrics :=
                            AList.update f (fm \<lparr> review_time := Some elapsed \<rparr>) (file_metrics m1) \<rparr>)
              else m1))"

text \<open>
  \<open>sum(xs)\<close> of a list of numbers: exact when every number is an int, the runtime's
  float sum otherwise.
\<close>

fun int_values :: "'f number list \<Rightarrow> int list option" where
  "int_values [] = Some []"
| "int_values (PyInt n # xs) = (case int_values xs of None \<Rightarrow> None | Some ns \<Rightarrow> Some (n # ns))"
| "int_values (PyFloat x # xs) = None"

definition py_sum :: "'f float_arith \<Rightarrow> 'f number list \<Rightarrow> py_error + 'f number" where
  "py_sum arith xs =
     (case int_values xs of
        Some ns \<Rightarrow> Inr (PyInt (sum_list ns))
      | None \<Rightarrow> (case float_sum arith xs of Inl e \<Rightarrow> Inl e | Inr s \<Rightarrow> Inr (PyFloat s)))"

text \<open>
  \<open>get_metrics\<close>: \<open>self._metrics.copy()\<close> is a shallow copy, so \<open>metrics["coverage"]\<close> and
  \<open>metrics["issues"]\<close> are the recorder's own dictionaries and the four assignments to
  them are assignments to the recorder. The function returns the snapshot, or the
  exception raised, together with the recorder as the call leaves it. The argument
  \<open>now\<close> is \<open>datetime.now()\<close>.
\<close>

definition get_metrics ::
  "'f float_arith \<Rightarrow> rat \<Rightarrow> 'f metrics \<Rightarrow> (py_error + 'f snapshot) \<times> 'f metrics" where
  "get_metrics arith now m =
     (case (if total_files (coverage m) > 0
            then ratio_times arith (PyInt (files_reviewed (coverage m)))
                   (PyInt (total_files (coverage m))) 100
            else Inr (PyInt 0)) of
        Inl e \<Rightarrow> (Inl e, m)
      | Inr file_percent \<Rightarrow>
          (let m1 = m \<lparr> coverage := (coverage m) \<lparr> file_coverage_percent := Some file_percent \<rparr> \<rparr> in
           case (if total_lines (coverage m1) > 0
                 then ratio_times arith (PyInt (lines_reviewed (coverage m1)))
                        (PyInt (total_lines (coverage m1))) 100
                 else Inr (PyInt 0)) of
             Inl e \<Rightarrow> (Inl e, m1)
           | Inr line_percent \<Rightarrow>
               (let m2 = m1 \<lparr> coverage := (coverage m1) \<lparr> line_coverage_percent := Some line_percent \<rparr> \<rparr> in
                case py_sum arith (map snd (issues m2)) of
                  Inl e \<Rightarrow> (Inl e, m2)
                | Inr total_issues \<Rightarrow>
                    (let m3 = m2 \<lparr> issues := AList.update ''total'' total_issues (issues m2) \<rparr> in
                     case (if lines_reviewed (coverage m3) > 0
                           then ratio_times arith total_issues
                                  (PyInt (lines_reviewed (coverage m3))) 1000
                           else Inr (PyInt 0)) of
                       Inl e \<Rightarrow> (Inl e, m3)
                     | Inr density \<Rightarrow>
                         (let m4 = m3 \<lparr> issues :=
                                     AList.update ''issues_per_1000_lines'' density (issues m3) \<rparr>
                          in (Inr \<lparr> review_start_time = review_start_time m4,
                                    timing = timing m4,
                                    coverage = coverage m4,
                                    issues = issues m4,
                                    file_metrics = file_metrics m4,
                                    review_end_time = now,
                                    total_duration_seconds =
                                      total_seconds arith (now - review_start_time m4) \<rparr>,
                              m4))))))"

section \<open>Strings, paths and decimal numerals\<close>

text \<open>
  A Python \<open>str\<close> is modelled as a list of \<open>char\<close>, one per code point, so the model
  covers text whose code points are below 256. The exceptions are values of \<open>py_error\<close>:
  \<open>SyntaxError\<close> carries \<open>e.lineno\<close> and \<open>str(e)\<close>, \<open>OtherError\<close> stands for every
  exception class the source does not name (its class name and \<open>str(e)\<close>).
\<close>

definition newline :: char where
  "newline = CHR 0x0A"

definition dquote :: char where
  "dquote = CHR 0x22"

definition squote :: char where
  "squote = CHR 0x27"

text \<open>\<open>str.isspace\<close>, also the class \<open>\s\<close> of a \<open>str\<close> pattern, below code point 256.\<close>

definition isspace :: "char \<Rightarrow> bool" where
  "isspace c = (of_char c \<in> {9, 10, 11, 12, 13, 28, 29, 30, 31, 32, 133, 160 :: nat})"

text \<open>\<open>str.lower\<close> on one character, below code point 256.\<close>

definition lower_char :: "char \<Rightarrow> char" where
  "lower_char c =
     (let n = (of_char c :: nat) in
      if (65 \<le> n \<and> n \<le> 90) \<or> (192 \<le> n \<and> n \<le> 222 \<and> n \<noteq> 215) then char_of (n + 32) else c)"

definition lower :: "string \<Rightarrow> string" where
  "lower s = map lower_char s"

definition startswith :: "string \<Rightarrow> string \<Rightarrow> bool" where
  "startswith s p = (take (length p) s = p)"

definition strip :: "string \<Rightarrow> string" where
  "strip s = rev (dropWhile isspace (rev (dropWhile isspace s)))"

text \<open>\<open>s.split('\n')\<close>.\<close>

fun split_lines :: "string \<Rightarrow> string list" where
  "split_lines [] = [[]]"
| "split_lines (c # cs) =
     (if c = newline then [] # split_lines cs
      else (case split_lines cs of [] \<Rightarrow> [[c]] | l # ls \<Rightarrow> (c # l) # ls))"

text \<open>\<open>"\n".join(xs)\<close>.\<close>

fun join_lines :: "string list \<Rightarrow> string" where
  "join_lines [] = []"
| "join_lines [x] = x"
| "join_lines (x # y # ys) = x @ newline # join_lines (y # ys)"

text \<open>\<open>os.path.join(a, b)\<close> and \<open>os.path.splitext(p)[1]\<close> of \<open>posixpath\<close>.\<close>

definition path_join :: "string \<Rightarrow> string \<Rightarrow> string" where
  "path_join a b =
     (if startswith b ''/'' then b
      else if a = [] \<or> last a = CHR ''/'' then a @ b
      else a @ ''/'' @ b)"

definition splitext_ext :: "string \<Rightarrow> string" where
  "splitext_ext p =
     (let base = rev (takeWhile (\<lambda>c. c \<noteq> CHR ''/'') (rev p)) in
      if CHR ''.'' \<in> set base then
        (let ext = CHR ''.'' # rev (takeWhile (\<lambda>c. c \<noteq> CHR ''.'') (rev base));
             stem = take (length base - length ext) base
         in if list_ex (\<lambda>c. c \<noteq> CHR ''.'') stem then ext else [])
      else [])"

text \<open>\<open>str(n)\<close> of an int, and of an optional int (\<open>None\<close> prints as \<open>None\<close>).\<close>

fun str_nat :: "nat \<Rightarrow> string" where
  "str_nat n =
     (if n < 10 then [''0123456789'' ! n]
      else str_nat (n div 10) @ [''0123456789'' ! (n mod 10)])"

declare str_nat.simps [simp del]

definition str_int :: "int \<Rightarrow> string" where
  "str_int i = (if i < 0 then CHR ''-'' # str_nat (nat (- i)) else str_nat (nat i))"

fun str_line :: "int option \<Rightarrow> string" where
  "str_line None = ''None''"
| "str_line (Some n) = str_int n"

fun str_error :: "py_error \<Rightarrow> string" where
  "str_error (KeyError k) = [squote] @ k @ [squote]"
| "str_error (FileNotFoundError msg) = msg"
| "str_error (SyntaxError lineno msg) = msg"
| "str_error (AttributeError msg) = msg"
| "str_error (OtherError cls msg) = msg"

section \<open>Review templates (review_logic.py)\<close>

type_synonym template = "(string \<times> string list) list"

text \<open>
  The loop of \<open>_parse_template\<close>, with \<open>current_section\<close> and \<open>sections\<close> as its state. The
  key appended to was stored when its section was opened.
\<close>

fun parse_template_lines :: "string list \<Rightarrow> string option \<Rightarrow> template \<Rightarrow> template" where
  "parse_template_lines [] current_section sections = sections"
| "parse_template_lines (l # ls) current_section sections =
     (if startswith l ''## '' then
        (let sec = strip (drop 3 l)
         in parse_template_lines ls (Some sec) (AList.update sec [] sections))
      else if startswith l ''- [ ] '' \<and> truthy_str current_section then
        (case current_section of
           None \<Rightarrow> parse_template_lines ls current_section sections
         | Some sec \<Rightarrow>
             parse_template_lines ls current_section
               (AList.update sec
                  ((case map_of sections sec of None \<Rightarrow> [] | Some items \<Rightarrow> items) @ [strip (drop 6 l)])
                  sections))
      else parse_template_lines ls current_section sections)"

definition parse_template :: "string \<Rightarrow> template" where
  "parse_template content = parse_template_lines (split_lines content) None []"

section \<open>Issues and the text rules (review_logic.py)\<close>

text \<open>
  An issue is the dictionary that every rule appends: its five keys are always present,
  \<open>line\<close> is \<open>None\<close> only for a syntax error without a line number.
\<close>

record issue =
  issue_file :: string
  line :: "int option"
  category :: string
  severity :: string
  message :: string

text \<open>
  \<open>re.finditer\<close> for a pattern without anchors or look-around that never matches the
  empty string: \<open>m\<close> decides whether the pattern matches at the start of a text and
  returns what is left after the match. The scan yields the start offsets of the
  matches from left to right; the search resumes at the end of each match. The third
  argument counts the characters still inside the last match.
\<close>

fun finditer_from :: "(string \<Rightarrow> string option) \<Rightarrow> nat \<Rightarrow> nat \<Rightarrow> string \<Rightarrow> nat list" where
  "finditer_from m pos inside [] = []"
| "finditer_from m pos (Suc k) (c # cs) = finditer_from m (Suc pos) k cs"
| "finditer_from m pos 0 (c # cs) =
     (case m (c # cs) of
        None \<Rightarrow> finditer_from m (Suc pos) 0 cs
      | Some rest \<Rightarrow> pos # finditer_from m (Suc pos) (length (c # cs) - length rest - 1) cs)"

definition finditer :: "(string \<Rightarrow> string option) \<Rightarrow> string \<Rightarrow> nat list" where
  "finditer m content = finditer_from m 0 0 content"

text \<open>\<open>content.count('\n', 0, start) + 1\<close>.\<close>

definition line_no :: "string \<Rightarrow> nat \<Rightarrow> int" where
  "line_no content start = int (length (filter (\<lambda>c. c = newline) (take start content))) + 1"

text \<open>
  A literal of a pattern: under \<open>re.IGNORECASE\<close> (the literal is given in lower case),
  and as it stands.
\<close>

fun match_literal_ci :: "string \<Rightarrow> string \<Rightarrow> string option" where
  "match_literal_ci [] s = Some s"
| "match_literal_ci (p # ps) [] = None"
| "match_literal_ci (p # ps) (c # cs) =
     (if lower_char c = p then match_literal_ci ps cs else None)"

fun match_literal :: "string \<Rightarrow> string \<Rightarrow> string option" where
  "match_literal [] s = Some s"
| "match_literal (p # ps) [] = None"
| "match_literal (p # ps) (c # cs) = (if c = p then match_literal ps cs else None)"

definition is_quote :: "char \<Rightarrow> bool" where
  "is_quote c = (c = dquote \<or> c = squote)"

text \<open>
  The common tail \<open>\s*=\s*["']([^"']+)["']\<close> of the four credential patterns. Each greedy
  repetition is followed by a character outside its class, so backtracking into it
  cannot produce a match and the match is the greedy one.
\<close>

definition match_assigned_literal :: "string \<Rightarrow> string option" where
  "match_assigned_literal s =
     (case dropWhile isspace s of
        [] \<Rightarrow> None
      | e # r1 \<Rightarrow>
          if e = CHR ''='' then
            (case dropWhile isspace r1 of
               [] \<Rightarrow> None
             | q # r2 \<Rightarrow>
                 if is_quote q \<and> takeWhile (\<lambda>c. \<not> is_quote c) r2 \<noteq> [] then
                   (case dropWhile (\<lambda>c. \<not> is_quote c) r2 of
                      [] \<Rightarrow> None
                    | q' # r3 \<Rightarrow> Some r3)
                 else None)
          else None)"

definition match_keyword_assignment :: "string \<Rightarrow> string \<Rightarrow> string option" where
  "match_keyword_assignment kw s =
     (case match_literal_ci kw s of None \<Rightarrow> None | Some r \<Rightarrow> match_assigned_literal r)"

text \<open>\<open>api_?key\<close> followed by the tail: the optional underscore is taken when it is there.\<close>

definition match_api_key :: "string \<Rightarrow> string option" where
  "match_api_key s =
     (case match_literal_ci ''api'' s of
        None \<Rightarrow> None
      | Some r \<Rightarrow>
          match_keyword_assignment ''key''
            (case r of [] \<Rightarrow> r | c # r' \<Rightarrow> if c = CHR ''_'' then r' else r))"

definition credential_patterns :: "(string \<Rightarrow> string option) list" where
  "credential_patterns =
     [match_keyword_assignment ''password'',
      match_api_key,
      match_keyword_assignment ''secret'',
      match_keyword_assignment ''token'']"

definition check_hardcoded_credentials :: "string \<Rightarrow> string \<Rightarrow> issue list \<Rightarrow> issue list" where
  "check_hardcoded_credentials file_path content so_far =
     so_far @
     concat (map (\<lambda>pattern.
        map (\<lambda>start.
          \<lparr> issue_file = file_path, line = Some (line_no content start), category = ''Security'',
            severity = ''High'', message = ''Potential hardcoded credential detected'' \<rparr>)
          (finditer pattern content))
        credential_patterns)"

definition check_console_logs :: "string \<Rightarrow> string \<Rightarrow> issue list \<Rightarrow> issue list" where
  "check_console_logs file_path content so_far =
     so_far @
     map (\<lambda>start.
       \<lparr> issue_file = file_path, line = Some (line_no content start), category = ''Debug'',
         severity = ''Low'',
         message = ''console.log statement should be removed in production code'' \<rparr>)
       (finditer (match_literal ''console.log('') content)"

definition check_line_length :: "string \<Rightarrow> string \<Rightarrow> issue list \<Rightarrow> issue list" where
  "check_line_length file_path content so_far =
     so_far @
     concat (map (\<lambda>(i, l).
        if length l > 100 then
          [\<lparr> issue_file = file_path, line = Some (int i + 1), category = ''Style'', severity = ''Low'',
             message = ''Line exceeds 100 characters (length: '' @ str_nat (length l) @ '')'' \<rparr>]
        else [])
        (enumerate 0 (split_lines content)))"

definition check_trailing_whitespace :: "string \<Rightarrow> string \<Rightarrow> issue list \<Rightarrow> issue list" where
  "check_trailing_whitespace file_path content so_far =
     so_far @
     concat (map (\<lambda>(i, l).
        if l \<noteq> [] \<and> isspace (last l) then
          [\<lparr> issue_file = file_path, line = Some (int i + 1), category = ''Style'', severity = ''Low'',
             message = ''Line has trailing whitespace'' \<rparr>]
        else [])
        (enumerate 0 (split_lines content)))"

section \<open>Syntax trees and the structural rules (review_logic.py)\<close>

text \<open>
  The tree that \<open>ast.parse\<close> returns, with one constructor for each node class the rules
  test with \<open>isinstance\<close> and \<open>ast_Other\<close> for every other class. A node keeps the
  attributes the rules read (\<open>name\<close>, \<open>lineno\<close>, \<open>body\<close>, \<open>value\<close>, \<open>op\<close>, \<open>values\<close>) and its
  remaining child nodes in field order: for a function or class, those before \<open>body\<close>
  (\<open>args\<close>; \<open>bases\<close> and \<open>keywords\<close>) and those after it (\<open>decorator_list\<close>, \<open>returns\<close>, ...).
  \<open>ast_Str\<close> is a constant holding a \<open>str\<close>, the nodes that \<open>isinstance(_, ast.Str)\<close>
  accepts in the Python versions that have \<open>ast.Str\<close> (up to 3.13). A module node has
  no \<open>lineno\<close>.
\<close>

datatype node =
    ast_Module "node list" "node list"
  | ast_FunctionDef string int "node list" "node list" "node list"
  | ast_ClassDef string int "node list" "node list" "node list"
  | ast_If int "node list"
  | ast_While int "node list"
  | ast_For int "node list"
  | ast_Expr int node
  | ast_Str int
  | ast_BoolOp int node "node list"
  | ast_And
  | ast_Or
  | ast_Other "node list"

fun iter_child_nodes :: "node \<Rightarrow> node list" where
  "iter_child_nodes (ast_Module body type_ignores) = body @ type_ignores"
| "iter_child_nodes (ast_FunctionDef name lineno before body after) = before @ body @ after"
| "iter_child_nodes (ast_ClassDef name lineno before body after) = before @ body @ after"
| "iter_child_nodes (ast_If lineno children) = children"
| "iter_child_nodes (ast_While lineno children) = children"
| "iter_child_nodes (ast_For lineno children) = children"
| "iter_child_nodes (ast_Expr lineno v) = [v]"
| "iter_child_nodes (ast_Str lineno) = []"
| "iter_child_nodes (ast_BoolOp lineno op operands) = op # operands"
| "iter_child_nodes ast_And = []"
| "iter_child_nodes ast_Or = []"
| "iter_child_nodes (ast_Other children) = children"

fun node_count :: "node \<Rightarrow> nat" where
  "node_count (ast_Module body type_ignores) =
     Suc (sum_list (map node_count body) + sum_list (map node_count type_ignores))"
| "node_count (ast_FunctionDef name lineno before body after) =
     Suc (sum_list (map node_count before) + sum_list (map node_count body) +
          sum_list (map node_count after))"
| "node_count (ast_ClassDef name lineno before body after) =
     Suc (sum_list (map node_count before) + sum_list (map node_count body) +
          sum_list (map node_count after))"
| "node_count (ast_If lineno children) = Suc (sum_list (map node_count children))"
| "node_count (ast_While lineno children) = Suc (sum_list (map node_count children))"
| "node_count (ast_For lineno children) = Suc (sum_list (map node_count children))"
| "node_count (ast_Expr lineno v) = Suc (node_count v)"
| "node_count (ast_Str lineno) = Suc 0"
| "node_count (ast_BoolOp lineno op operands) =
     Suc (node_count op + sum_list (map node_count operands))"
| "node_count ast_And = Suc 0"
| "node_count ast_Or = Suc 0"
| "node_count (ast_Other children) = Suc (sum_list (map node_count children))"

text \<open>
  \<open>ast.walk\<close>: a queue that starts with the node; each step takes the first node off
  the queue, appends its children at the end and yields it.
\<close>

function walk_queue :: "node list \<Rightarrow> node list" where
  "walk_queue [] = []"
| "walk_queue (n # todo) = n # walk_queue (todo @ iter_child_nodes n)"
  by pat_completeness auto
termination
proof (relation "measure (\<lambda>todo. sum_list (map node_count todo))")
  show "wf (measure (\<lambda>todo. sum_list (map node_count todo)))"
    by simp
next
  fix n :: node and todo :: "node list"
  have "node_count n = Suc (sum_list (map node_count (iter_child_nodes n)))"
    by (cases n) simp_all
  then show "(todo @ iter_child_nodes n, n # todo) \<in> measure (\<lambda>todo. sum_list (map node_count todo))"
    by simp
qed

definition walk :: "node \<Rightarrow> node list" where
  "walk n = walk_queue [n]"

text \<open>
  \<open>node.body and isinstance(node.body[0], ast.Expr) and
  isinstance(node.body[0].value, ast.Str)\<close>.
\<close>

fun has_docstring :: "node list \<Rightarrow> bool" where
  "has_docstring (ast_Expr lineno (ast_Str l) # rest) = True"
| "has_docstring body = False"

definition docstring_issue :: "string \<Rightarrow> string \<Rightarrow> string \<Rightarrow> int \<Rightarrow> issue" where
  "docstring_issue file_path node_type node_name lineno =
     \<lparr> issue_file = file_path, line = Some lineno, category = ''Documentation'',
       severity = ''Medium'',
       message = ''Missing docstring for '' @ node_type @ '' '' @ [squote] @ node_name @ [squote] \<rparr>"

text \<open>
  The loop of \<open>_check_docstrings\<close> over the walked nodes. For a module without a
  docstring the issue's \<open>node.lineno\<close> raises \<open>AttributeError\<close>; the issues appended so
  far stay in \<open>self.issues\<close>.
\<close>

fun check_docstrings_nodes :: "string \<Rightarrow> node list \<Rightarrow> issue list \<Rightarrow> py_error option \<times> issue list" where
  "check_docstrings_nodes file_path [] so_far = (None, so_far)"
| "check_docstrings_nodes file_path (ast_Module body type_ignores # ns) so_far =
     (if \<not> has_docstring body
      then (Some (AttributeError
              ([squote] @ ''Module'' @ [squote] @ '' object has no attribute '' @
               [squote] @ ''lineno'' @ [squote])), so_far)
      else check_docstrings_nodes file_path ns so_far)"
| "check_docstrings_nodes file_path (ast_FunctionDef name lineno before body after # ns) so_far =
     (if \<not> has_docstring body \<and> \<not> startswith name ''_''
      then check_docstrings_nodes file_path ns
             (so_far @ [docstring_issue file_path ''function'' name lineno])
      else check_docstrings_nodes file_path ns so_far)"
| "check_docstrings_nodes file_path (ast_ClassDef name lineno before body after # ns) so_far =
     (if \<not> has_docstring body
      then check_docstrings_nodes file_path ns
             (so_far @ [docstring_issue file_path ''class'' name lineno])
      else check_docstrings_nodes file_path ns so_far)"
| "check_docstrings_nodes file_path (n # ns) so_far = check_docstrings_nodes file_path ns so_far"

definition check_docstrings :: "string \<Rightarrow> node \<Rightarrow> issue list \<Rightarrow> py_error option \<times> issue list" where
  "check_docstrings file_path tree so_far = check_docstrings_nodes file_path (walk tree) so_far"

text \<open>
  \<open>re.match\<close> of \<open>^[A-Z][a-zA-Z0-9]*$\<close> and of \<open>^[a-z][a-z0-9_]*$\<close>: \<open>$\<close> matches at the end
  and before a newline that ends the string.
\<close>

definition is_upper :: "char \<Rightarrow> bool" where
  "is_upper c = (65 \<le> (of_char c :: nat) \<and> (of_char c :: nat) \<le> 90)"

definition is_lower :: "char \<Rightarrow> bool" where
  "is_lower c = (97 \<le> (of_char c :: nat) \<and> (of_char c :: nat) \<le> 122)"

definition is_digit :: "char \<Rightarrow> bool" where
  "is_digit c = (48 \<le> (of_char c :: nat) \<and> (of_char c :: nat) \<le> 57)"

definition at_end :: "string \<Rightarrow> bool" where
  "at_end s = (s = [] \<or> s = [newline])"

fun is_camel_case :: "string \<Rightarrow> bool" where
  "is_camel_case [] = False"
| "is_camel_case (c # cs) =
     (is_upper c \<and> at_end (dropWhile (\<lambda>x. is_lower x \<or> is_upper x \<or> is_digit x) cs))"

fun is_snake_case :: "string \<Rightarrow> bool" where
  "is_snake_case [] = False"
| "is_snake_case (c # cs) =
     (is_lower c \<and> at_end (dropWhile (\<lambda>x. is_lower x \<or> is_digit x \<or> x = CHR ''_'') cs))"

definition naming_issue :: "string \<Rightarrow> int \<Rightarrow> string \<Rightarrow> issue" where
  "naming_issue file_path lineno msg =
     \<lparr> issue_file = file_path, line = Some lineno, category = ''Style'', severity = ''Low'',
       message = msg \<rparr>"

fun naming_issues_of :: "string \<Rightarrow> node \<Rightarrow> issue list" where
  "naming_issues_of file_path (ast_ClassDef name lineno before body after) =
     (if \<not> is_camel_case name
      then [naming_issue file_path lineno
              (''Class '' @ [squote] @ name @ [squote] @
               '' doesn'' @ [squote] @ ''t follow CamelCase naming convention'')]
      else [])"
| "naming_issues_of file_path (ast_FunctionDef name lineno before body after) =
     (if \<not> startswith name ''__'' \<and> \<not> is_snake_case name
      then [naming_issue file_path lineno
              (''Function '' @ [squote] @ name @ [squote] @
               '' doesn'' @ [squote] @ ''t follow snake_case naming convention'')]
      else [])"
| "naming_issues_of file_path n = []"

definition check_naming_conventions :: "string \<Rightarrow> node \<Rightarrow> issue list \<Rightarrow> issue list" where
  "check_naming_conventions file_path tree so_far =
     so_far @ concat (map (naming_issues_of file_path) (walk tree))"

text \<open>\<open>_calculate_complexity\<close>: the loop body, then the loop over \<open>ast.walk(node)\<close>.\<close>

fun complexity_step :: "int \<Rightarrow> node \<Rightarrow> int" where
  "complexity_step complexity (ast_If lineno children) = complexity + 1"
| "complexity_step complexity (ast_While lineno children) = complexity + 1"
| "complexity_step complexity (ast_For lineno children) = complexity + 1"
| "complexity_step complexity (ast_BoolOp lineno op operands) =
     (if op = ast_And then complexity + (int (length operands) - 1) else complexity)"
| "complexity_step complexity subnode = complexity"

definition calculate_complexity :: "node \<Rightarrow> int" where
  "calculate_complexity n = foldl complexity_step 1 (walk n)"

fun complexity_issues_of :: "string \<Rightarrow> node \<Rightarrow> issue list" where
  "complexity_issues_of file_path (ast_FunctionDef name lineno before body after) =
     (let complexity = calculate_complexity (ast_FunctionDef name lineno before body after) in
      if complexity > 10
      then [\<lparr> issue_file = file_path, line = Some lineno, category = ''Maintainability'',
              severity = ''Medium'',
              message = ''Function '' @ [squote] @ name @ [squote] @
                        '' has high cyclomatic complexity ('' @ str_int complexity @ '')'' \<rparr>]
      else [])"
| "complexity_issues_of file_path n = []"

definition check_function_complexity :: "string \<Rightarrow> node \<Rightarrow> issue list \<Rightarrow> issue list" where
  "check_function_complexity file_path tree so_far =
     so_far @ concat (map (complexity_issues_of file_path) (walk tree))"

section \<open>The reviewer (review_logic.py)\<close>

text \<open>
  The reviewer object: \<open>self.template_path\<close>, \<open>self.issues\<close> and \<open>self.stats\<close>. The world
  outside it is two functions: \<open>read_text\<close> gives what \<open>open(path, 'r')\<close> followed by
  \<open>f.read()\<close> does (the text, or the exception raised), \<open>ast_parse\<close> what \<open>ast.parse\<close>
  does. A method that logs returns the lines it gave to \<open>logger.error\<close>.
\<close>

record reviewer_stats =
  stat_files_reviewed :: int
  issues_found :: int
  issue_types :: "(string \<times> int) list"

record reviewer =
  template_path :: string
  self_issues :: "issue list"
  stats :: reviewer_stats

definition CodeReviewer_init :: "string \<Rightarrow> reviewer" where
  "CodeReviewer_init path =
     \<lparr> template_path = path, self_issues = [],
       stats = \<lparr> stat_files_reviewed = 0, issues_found = 0, issue_types = [] \<rparr> \<rparr>"

text \<open>
  \<open>load_template\<close> catches \<open>FileNotFoundError\<close> only; any other exception of the read
  leaves the method.
\<close>

definition load_template ::
  "(string \<Rightarrow> py_error + string) \<Rightarrow> reviewer \<Rightarrow> string \<Rightarrow> (py_error + template) \<times> string list" where
  "load_template read_text self template_name =
     (let template_file = path_join (template_path self) (template_name @ ''.md'') in
      case read_text template_file of
        Inr content \<Rightarrow> (Inr (parse_template content), [])
      | Inl (FileNotFoundError msg) \<Rightarrow>
          (Inr [], [''Template '' @ template_name @ '' not found at '' @ template_file])
      | Inl e \<Rightarrow> (Inl e, []))"

text \<open>
  \<open>_review_python_file\<close>: the \<open>try\<close> body, whose \<open>except SyntaxError\<close> turns a syntax error
  into one issue and lets every other exception through.
\<close>

definition on_syntax_error :: "string \<Rightarrow> py_error \<Rightarrow> issue list \<Rightarrow> py_error option \<times> issue list" where
  "on_syntax_error file_path e so_far =
     (case e of
        SyntaxError lineno msg \<Rightarrow>
          (None, so_far @
             [\<lparr> issue_file = file_path, line = lineno, category = ''Syntax'', severity = ''High'',
                message = ''Syntax error: '' @ msg \<rparr>])
      | _ \<Rightarrow> (Some e, so_far))"

definition review_python_file ::
  "(string \<Rightarrow> py_error + node) \<Rightarrow> string \<Rightarrow> string \<Rightarrow> issue list \<Rightarrow> py_error option \<times> issue list" where
  "review_python_file ast_parse file_path content so_far =
     (case ast_parse content of
        Inl e \<Rightarrow> on_syntax_error file_path e so_far
      | Inr tree \<Rightarrow>
          (case check_docstrings file_path tree
                  (check_hardcoded_credentials file_path content so_far) of
             (Some e, found) \<Rightarrow> on_syntax_error file_path e found
           | (None, found) \<Rightarrow>
               (None, check_function_complexity file_path tree
                        (check_naming_conventions file_path tree found))))"

definition review_javascript_file :: "string \<Rightarrow> string \<Rightarrow> issue list \<Rightarrow> issue list" where
  "review_javascript_file file_path content so_far =
     check_hardcoded_credentials file_path content (check_console_logs file_path content so_far)"

definition review_generic_file :: "string \<Rightarrow> string \<Rightarrow> issue list \<Rightarrow> issue list" where
  "review_generic_file file_path content so_far =
     check_trailing_whitespace file_path content (check_line_length file_path content so_far)"

text \<open>The statistics update at the end of the \<open>try\<close> body of \<open>review_file\<close>.\<close>

definition count_issue_type :: "(string \<times> int) list \<Rightarrow> issue \<Rightarrow> (string \<times> int) list" where
  "count_issue_type types i =
     AList.update (category i)
       ((case map_of types (category i) of None \<Rightarrow> 0 | Some n \<Rightarrow> n) + 1) types"

definition update_statistics :: "reviewer \<Rightarrow> reviewer" where
  "update_statistics self =
     self \<lparr> stats := \<lparr> stat_files_reviewed = stat_files_reviewed (stats self) + 1,
                       issues_found = issues_found (stats self) + int (length (self_issues self)),
                       issue_types = foldl count_issue_type (issue_types (stats self))
                                       (self_issues self) \<rparr> \<rparr>"

text \<open>
  The \<open>try\<close> body of \<open>review_file\<close>: the exception that ends it, if any, and the reviewer as
  the body left it.
\<close>

definition review_file_body ::
  "(string \<Rightarrow> py_error + string) \<Rightarrow> (string \<Rightarrow> py_error + node) \<Rightarrow> string \<Rightarrow> reviewer \<Rightarrow>
   py_error option \<times> reviewer" where
  "review_file_body read_text ast_parse file_path self =
     (case read_text file_path of
        Inl e \<Rightarrow> (Some e, self)
      | Inr content \<Rightarrow>
          (let file_ext = lower (splitext_ext file_path) in
           if file_ext = ''.py'' then
             (case review_python_file ast_parse file_path content (self_issues self) of
                (Some e, found) \<Rightarrow> (Some e, self \<lparr> self_issues := found \<rparr>)
              | (None, found) \<Rightarrow> (None, update_statistics (self \<lparr> self_issues := found \<rparr>)))
           else if file_ext = ''.js'' \<or> file_ext = ''.ts'' then
             (None, update_statistics
                (self \<lparr> self_issues := review_javascript_file file_path content (self_issues self) \<rparr>))
           else
             (None, update_statistics
                (self \<lparr> self_issues := review_generic_file file_path content (self_issues self) \<rparr>))))"

text \<open>
  \<open>review_file\<close>: what the caller gets (the returned list, or the exception that reaches
  the caller), the lines logged, and the reviewer afterwards.
\<close>

definition review_file ::
  "(string \<Rightarrow> py_error + string) \<Rightarrow> (string \<Rightarrow> py_error + node) \<Rightarrow> string \<Rightarrow> string \<Rightarrow> reviewer \<Rightarrow>
   (py_error + issue list) \<times> string list \<times> reviewer" where
  "review_file read_text ast_parse file_path template_name self =
     (let self1 = self \<lparr> self_issues := [] \<rparr> in
      case load_template read_text self1 template_name of
        (Inl e, logged) \<Rightarrow> (Inl e, logged, self1)
      | (Inr template, logged) \<Rightarrow>
          if template = [] then
            (Inr [], logged @ [''Failed to load template '' @ template_name], self1)
          else
            (case review_file_body read_text ast_parse file_path self1 of
               (None, self2) \<Rightarrow> (Inr (self_issues self2), logged, self2)
             | (Some e, self2) \<Rightarrow>
                 (Inr [],
                  logged @ [''Error reviewing file '' @ file_path @ '': '' @ str_error e],
                  self2)))"

section \<open>The report (review_logic.py)\<close>

definition no_issues_report :: string where
  "no_issues_report =
     ''# Code Review Report'' @ [newline, newline] @ ''No issues found in the code review.''"

definition group_by_file :: "issue list \<Rightarrow> (string \<times> issue list) list" where
  "group_by_file found =
     foldl (\<lambda>by_file i.
        AList.update (issue_file i)
          ((case map_of by_file (issue_file i) of None \<Rightarrow> [] | Some xs \<Rightarrow> xs) @ [i]) by_file)
       [] found"

definition issue_line :: "issue \<Rightarrow> string" where
  "issue_line i =
     ''- **Line '' @ str_line (line i) @ ''** ('' @ category i @ ''): '' @ message i"

definition severity_block :: "issue list \<Rightarrow> string \<Rightarrow> string list" where
  "severity_block file_issues sev =
     (let severity_issues = filter (\<lambda>i. severity i = sev) file_issues in
      if severity_issues \<noteq> [] then
        [''#### '' @ sev @ '' Severity Issues'' @ [newline]] @ map issue_line severity_issues @ [[]]
      else [])"

definition file_block :: "string \<times> issue list \<Rightarrow> string list" where
  "file_block entry =
     [''### File: '' @ [CHR 0x60] @ fst entry @ [CHR 0x60] @ [newline]] @
     concat (map (severity_block (snd entry)) [''High'', ''Medium'', ''Low''])"

text \<open>
  \<open>generate_review_report\<close>: the argument is \<open>None\<close> or a list; \<open>issues or self.issues\<close>
  takes \<open>self.issues\<close> for \<open>None\<close> and for the empty list.
\<close>

definition generate_review_report :: "issue list option \<Rightarrow> reviewer \<Rightarrow> string" where
  "generate_review_report arg self =
     (let found = (case arg of None \<Rightarrow> self_issues self
                   | Some xs \<Rightarrow> if xs = [] then self_issues self else xs) in
      if found = [] then no_issues_report
      else
        join_lines
          ([''# Code Review Report'' @ [newline],
            ''## Summary'' @ [newline],
            ''- Files reviewed: '' @ str_int (stat_files_reviewed (stats self)),
            ''- Total issues found: '' @ str_int (issues_found (stats self)),
            [newline] @ ''### Issues by Category'' @ [newline]] @
           map (\<lambda>(cat, n). ''- '' @ cat @ '': '' @ str_int n) (issue_types (stats self)) @
           [[newline] @ ''## Detailed Findings'' @ [newline]] @
           concat (map file_block (group_by_file found))))"

section \<open>Notions of the specification\<close>

text \<open>The sum of the five built-in category counters of an issue dictionary.\<close>

definition builtin_total :: "(string \<times> 'f number) list \<Rightarrow> int" where
  "builtin_total d =
     sum_list (map (\<lambda>k. case map_of d k of Some (PyInt n) \<Rightarrow> n | _ \<Rightarrow> 0)
       [''security'', ''performance'', ''style'', ''logic'', ''other''])"

text \<open>
  An issue dictionary that holds the five built-in counters and nothing else, as it does
  until the first snapshot.
\<close>

definition builtin_counters :: "(string \<times> 'f number) list \<Rightarrow> bool" where
  "builtin_counters d =
     (\<exists>a b c d' e. d = [(''security'', PyInt a), (''performance'', PyInt b), (''style'', PyInt c),
                         (''logic'', PyInt d'), (''other'', PyInt e)])"

text \<open>The file metric that \<open>record_file_review\<close> stores.\<close>

definition fresh_file_metric :: "int \<Rightarrow> int \<Rightarrow> 'f number \<Rightarrow> 'f file_metric" where
  "fresh_file_metric lines_rev total_lns percent =
     \<lparr> fm_lines_reviewed = lines_rev, fm_total_lines = total_lns, coverage_percent = percent,
       review_time = None, fm_issues = zero_issue_counts, issue_details = None \<rparr>"

text \<open>
  A sequence of recording operations on a recorder. An exception ends the call that
  raised it only; the recorder goes on as the call left it.
\<close>

datatype 'f recording =
    RecordFileReview string int int
  | SetTotalCodebaseSize int int
  | RecordIssue string string "int option" "string option"
  | Timed string "string option" 'f

fun record_one :: "'f float_arith \<Rightarrow> 'f metrics \<Rightarrow> 'f recording \<Rightarrow> 'f metrics" where
  "record_one arith m (RecordFileReview filename lines_rev total_lns) =
     snd (record_file_review arith filename lines_rev total_lns m)"
| "record_one arith m (SetTotalCodebaseSize files lines) = set_total_codebase_size files lines m"
| "record_one arith m (RecordIssue issue_type filename line_number description) =
     snd (record_issue arith issue_type filename line_number description m)"
| "record_one arith m (Timed category_name filename elapsed) =
     timed category_name filename elapsed m"

definition record_all :: "'f float_arith \<Rightarrow> 'f metrics \<Rightarrow> 'f recording list \<Rightarrow> 'f metrics" where
  "record_all arith m rs = foldl (record_one arith) m rs"

text \<open>
  Every node of the subtree below a node, the node itself first: the nodes a rule means
  by "anywhere in the subtree".
\<close>

function subtree :: "node \<Rightarrow> node list" where
  "subtree n = n # concat (map subtree (iter_child_nodes n))"
  by pat_completeness auto
termination
proof (relation "measure node_count")
  show "wf (measure node_count)"
    by simp
next
  fix n x :: node
  assume x: "x \<in> set (iter_child_nodes n)"
  have "node_count n = Suc (sum_list (map node_count (iter_child_nodes n)))"
    by (cases n) simp_all
  moreover have "node_count x \<le> sum_list (map node_count (iter_child_nodes n))"
    using x by (simp add: member_le_sum_list)
  ultimately show "(x, n) \<in> measure node_count"
    by simp
qed

declare subtree.simps [simp del]

text \<open>
  The constructs the complexity counts: \<open>if\<close>, \<open>while\<close> and \<open>for\<close> statements, and the
  boolean expressions chained by \<open>and\<close> with the number of their operands.
\<close>

fun is_branch :: "node \<Rightarrow> bool" where
  "is_branch (ast_If lineno children) = True"
| "is_branch (ast_While lineno children) = True"
| "is_branch (ast_For lineno children) = True"
| "is_branch n = False"

fun is_and_chain :: "node \<Rightarrow> bool" where
  "is_and_chain (ast_BoolOp lineno op operands) = (op = ast_And)"
| "is_and_chain n = False"

fun operand_count :: "node \<Rightarrow> nat" where
  "operand_count (ast_BoolOp lineno op operands) = length operands"
| "operand_count n = 0"

definition count_branches :: "node \<Rightarrow> nat" where
  "count_branches f = length (filter is_branch (subtree f))"

definition and_chains :: "node \<Rightarrow> node list" where
  "and_chains f = filter is_and_chain (subtree f)"

definition and_chain_extra :: "node \<Rightarrow> int" where
  "and_chain_extra f = sum_list (map (\<lambda>b. int (operand_count b) - 1) (and_chains f))"

text \<open>
  What the Python parser guarantees of a boolean expression, and its own validator
  demands ("BoolOp with less than 2 values"): at least two operands.
\<close>

fun chain_parsed :: "node \<Rightarrow> bool" where
  "chain_parsed (ast_BoolOp lineno op operands) = (2 \<le> length operands)"
| "chain_parsed n = True"

definition parsed_chains :: "node \<Rightarrow> bool" where
  "parsed_chains f = list_all chain_parsed (subtree f)"

text \<open>
  The docstring rule as the code has it: the issues a single node of the tree gets. A
  function is passed over when its name starts with an underscore, however many. A
  module counts as documented when its body starts with a docstring.
\<close>

fun expected_docstring_issues :: "string \<Rightarrow> node \<Rightarrow> issue list" where
  "expected_docstring_issues file_path (ast_FunctionDef name lineno before body after) =
     (if \<not> has_docstring body \<and> \<not> startswith name ''_''
      then [\<lparr> issue_file = file_path, line = Some lineno, category = ''Documentation'',
              severity = ''Medium'',
              message = ''Missing docstring for function '' @ [squote] @ name @ [squote] \<rparr>]
      else [])"
| "expected_docstring_issues file_path (ast_ClassDef name lineno before body after) =
     (if \<not> has_docstring body
      then [\<lparr> issue_file = file_path, line = Some lineno, category = ''Documentation'',
              severity = ''Medium'',
              message = ''Missing docstring for class '' @ [squote] @ name @ [squote] \<rparr>]
      else [])"
| "expected_docstring_issues file_path n = []"

fun module_documented :: "node \<Rightarrow> bool" where
  "module_documented (ast_Module body type_ignores) = has_docstring body"
| "module_documented n = True"

section \<open>Concrete inputs\<close>

text \<open>
  A template directory \<open>templates\<close> with a readable \<open>general.md\<close> and an unreadable
  \<open>locked.md\<close>; the source file \<open>a.py\<close> holding the one line \<open>password = "abc"\<close>, with
  the tree \<open>ast.parse\<close> gives it (an assignment of a string constant to a name); the
  source file \<open>b.py\<close> holding a module docstring and a method \<open>__init__\<close> without one; and
  a text file \<open>notes.txt\<close> whose only line ends in a blank.
\<close>

definition example_template :: string where
  "example_template = ''## Security'' @ [newline] @ ''- [ ] No hardcoded secrets''"

definition example_source :: string where
  "example_source = ''password = '' @ [dquote] @ ''abc'' @ [dquote]"

definition example_tree :: node where
  "example_tree = ast_Module [ast_Other [ast_Other [ast_Other []], ast_Str 1]] []"

definition dunder_source :: string where
  "dunder_source =
     [dquote] @ ''doc'' @ [dquote] @ [newline] @
     ''def __init__(self):'' @ [newline] @ ''    pass''"

definition dunder_tree :: node where
  "dunder_tree =
     ast_Module
       [ast_Expr 1 (ast_Str 1),
        ast_FunctionDef ''__init__'' 2 [ast_Other [ast_Other []]] [ast_Other []] []] []"

definition example_read_text :: "string \<Rightarrow> py_error + string" where
  "example_read_text path =
     (if path = ''templates/general.md'' then Inr example_template
      else if path = ''templates/locked.md''
        then Inl (OtherError ''PermissionError'' ''[Errno 13] Permission denied'')
      else if path = ''a.py'' then Inr example_source
      else if path = ''b.py'' then Inr dunder_source
      else if path = ''notes.txt'' then Inr ''x ''
      else Inl (FileNotFoundError ''[Errno 2] No such file or directory''))"

definition example_parse :: "string \<Rightarrow> py_error + node" where
  "example_parse content =
     (if content = example_source then Inr example_tree
      else if content = dunder_source then Inr dunder_tree
      else Inl (SyntaxError (Some 1) ''invalid syntax''))"

text \<open>
  A float arithmetic for the examples, on the rationals: it computes without rounding,
  and a quotient of \<open>2 ^ 1024\<close> or more is too large for a float. The runtime's
  arithmetic agrees with it at the inputs of the examples: there every exact quotient
  and product is a float (\<open>10 / 20\<close>, \<open>8 / 8\<close>, \<open>3 / 8\<close> and their multiples), or the
  quotient is out of range (\<open>2 ^ 1024 / 1\<close>).
\<close>

fun rat_of_number :: "rat number \<Rightarrow> rat" where
  "rat_of_number (PyInt n) = rat_of_int n"
| "rat_of_number (PyFloat x) = x"

definition exact_arith :: "rat float_arith" where
  "exact_arith =
     \<lparr> truediv = (\<lambda>x y.
         if rat_of_number y = 0
         then Inl (OtherError ''ZeroDivisionError'' ''division by zero'')
         else if 2 ^ 1024 \<le> \<bar>rat_of_number x / rat_of_number y\<bar>
         then Inl (OtherError ''OverflowError'' ''integer division result too large for a float'')
         else Inr (rat_of_number x / rat_of_number y)),
       fmul_int = (\<lambda>x k. x * rat_of_int k),
       plus_one = (\<lambda>x. x + 1),
       float_sum = (\<lambda>xs. Inr (sum_list (map rat_of_number xs))),
       total_seconds = (\<lambda>d. d) \<rparr>"

section \<open>The metrics recorder: snapshots\<close>

text \<open>
  C1. The claim: in every snapshot \<open>issues.total\<close> is the sum of the five built-in
  category counters, also in a second snapshot taken right after a first one. The code
  at a concrete input, under any float arithmetic: one security issue is recorded on a
  fresh recorder and two snapshots are taken. Both calls return a snapshot. The first
  reports the total 1. The second reports 2 although the five counters still sum to 1,
  because the first call stored \<open>total\<close> and \<open>issues_per_1000_lines\<close> in the recorder's
  own issue dictionary and the second call sums them with the counters.
\<close>

theorem second_snapshot_total_counts_first_total:
  "\<exists>s1 m1 s2 m2.
     get_metrics arith 1
       (snd (record_issue arith ''security'' ''f.py'' None None (Metrics_init 0))) = (Inr s1, m1)
   \<and> get_metrics arith 2 m1 = (Inr s2, m2)
   \<and> map_of (issues s1) ''total'' = Some (PyInt 1)
   \<and> map_of (issues s2) ''total'' = Some (PyInt 2)
   \<and> builtin_total (issues s2) = 1"
  by (simp add: get_metrics_def record_issue_def Metrics_init_def zero_issue_counts_def
      increment_def builtin_total_def py_sum_def Let_def)

text \<open>
  C2. The claim: a snapshot is a pure query, it leaves the recorder unchanged and two
  consecutive snapshots report equal issue counts. The code at a concrete input, under
  any float arithmetic: on the recorder with one security issue, the recorder after a
  snapshot differs from the recorder before it (its issue dictionary has gained the keys
  \<open>total\<close> and \<open>issues_per_1000_lines\<close>), and the issue counts of a second snapshot
  differ from those of the first.
\<close>

theorem snapshot_changes_recorder:
  "\<exists>s1 m1 s2 m2.
     get_metrics arith 1
       (snd (record_issue arith ''security'' ''f.py'' None None (Metrics_init 0))) = (Inr s1, m1)
   \<and> get_metrics arith 2 m1 = (Inr s2, m2)
   \<and> m1 \<noteq> snd (record_issue arith ''security'' ''f.py'' None None (Metrics_init 0))
   \<and> map fst (issues m1) =
       [''security'', ''performance'', ''style'', ''logic'', ''other'', ''total'',
        ''issues_per_1000_lines'']
   \<and> issues s2 \<noteq> issues s1"
  by (simp add: get_metrics_def record_issue_def Metrics_init_def zero_issue_counts_def
      increment_def py_sum_def Let_def)

text \<open>
  What does hold of snapshots: as long as the issue dictionary holds the five built-in
  counters and nothing else, which every recording operation preserves, a snapshot
  reports their sum and the density computed from it.
\<close>

lemma increment_builtin_counters:
  assumes "builtin_counters d" and "increment arith k d = Inr d'"
  shows "builtin_counters d'"
proof -
  obtain a b c x e where d: "d = [(''security'', PyInt a), (''performance'', PyInt b),
      (''style'', PyInt c), (''logic'', PyInt x), (''other'', PyInt e)]"
    using assms(1) unfolding builtin_counters_def by blast
  consider "k = ''security''" | "k = ''performance''" | "k = ''style''" | "k = ''logic''"
    | "k = ''other''"
    | "k \<noteq> ''security''" "k \<noteq> ''performance''" "k \<noteq> ''style''" "k \<noteq> ''logic''" "k \<noteq> ''other''"
    by blast
  then show ?thesis
  proof cases
    case 6
    with assms(2) d show ?thesis by (simp add: increment_def)
  qed (use assms(2) d in \<open>auto simp: increment_def builtin_counters_def\<close>)
qed

lemma record_issue_builtin_counters:
  assumes "builtin_counters (issues m)"
  shows "builtin_counters (issues (snd (record_issue arith issue_type filename line_number description m)))"
proof -
  let ?ty = "if map_of (issues m) issue_type = None then ''other'' else issue_type"
  show ?thesis
  proof (cases "increment arith ?ty (issues m)")
    case (Inl e)
    with assms show ?thesis by (simp add: record_issue_def Let_def)
  next
    case (Inr iss)
    with assms have k: "builtin_counters iss" by (rule increment_builtin_counters)
    show ?thesis
    proof (cases "map_of (file_metrics m) filename")
      case None
      with Inr k show ?thesis by (simp add: record_issue_def Let_def)
    next
      case (Some fm)
      show ?thesis
      proof (cases "increment_int ?ty (fm_issues fm)")
        case (Inl e)
        with Inr Some k show ?thesis by (simp add: record_issue_def Let_def)
      next
        case (Inr fi)
        with \<open>increment arith ?ty (issues m) = Inr iss\<close> Some k show ?thesis
          by (simp add: record_issue_def Let_def)
      qed
    qed
  qed
qed

lemma record_file_review_issues:
  "issues (snd (record_file_review arith filename lines_rev total_lns m)) = issues m"
  by (simp add: record_file_review_def Let_def split: sum.splits)

lemma record_one_builtin_counters:
  assumes "builtin_counters (issues m)"
  shows "builtin_counters (issues (record_one arith m r))"
proof (cases r)
  case (RecordFileReview filename lines_rev total_lns)
  with assms show ?thesis by (simp add: record_file_review_issues)
next
  case (SetTotalCodebaseSize files lines)
  with assms show ?thesis by (simp add: set_total_codebase_size_def)
next
  case (RecordIssue issue_type filename line_number description)
  with assms show ?thesis by (simp add: record_issue_builtin_counters)
next
  case (Timed category_name filename elapsed)
  with assms show ?thesis by (simp add: timed_def Let_def split: option.splits)
qed

lemma record_all_builtin_counters:
  "builtin_counters (issues m) \<Longrightarrow> builtin_counters (issues (record_all arith m rs))"
  unfolding record_all_def
  by (induction rs arbitrary: m) (simp_all add: record_one_builtin_counters)

lemma first_snapshot_total:
  assumes "builtin_counters (issues m)" and "fst (get_metrics arith now m) = Inr s"
  shows "map_of (issues s) ''total'' = Some (PyInt (builtin_total (issues m)))
     \<and> (\<exists>density.
          (if 0 < lines_reviewed (coverage m)
           then ratio_times arith (PyInt (builtin_total (issues m)))
                  (PyInt (lines_reviewed (coverage m))) 1000
           else Inr (PyInt 0)) = Inr density
          \<and> map_of (issues s) ''issues_per_1000_lines'' = Some density)"
proof -
  obtain a b c x e where i: "issues m = [(''security'', PyInt a), (''performance'', PyInt b),
      (''style'', PyInt c), (''logic'', PyInt x), (''other'', PyInt e)]"
    using assms(1) unfolding builtin_counters_def by blast
  have t: "py_sum arith [PyInt a, PyInt b, PyInt c, PyInt x, PyInt e] =
      Inr (PyInt (a + b + c + x + e))"
    by (simp add: py_sum_def)
  have b: "builtin_total [(''security'', PyInt a), (''performance'', PyInt b),
      (''style'', PyInt c), (''logic'', PyInt x), (''other'', PyInt e :: 'a number)] =
      a + b + c + x + e"
    by (simp add: builtin_total_def)
  show ?thesis
    using assms(2)
    by (auto simp: get_metrics_def Let_def t b i split: sum.splits if_splits)
qed

text \<open>
  After any sequence of recording operations on a fresh recorder, a first snapshot, when
  the float arithmetic lets \<open>get_metrics\<close> return one, reports \<open>issues.total\<close> equal to
  the sum of the five built-in category counters, and \<open>issues_per_1000_lines\<close> equal to
  the float \<open>total / lines_reviewed * 1000\<close> when \<open>lines_reviewed\<close> is positive and to
  the int 0 otherwise.
\<close>

theorem first_snapshot_after_recordings:
  assumes "fst (get_metrics arith now (record_all arith (Metrics_init start) rs)) = Inr s"
  shows "map_of (issues s) ''total'' =
           Some (PyInt (builtin_total (issues (record_all arith (Metrics_init start) rs))))
     \<and> (\<exists>density.
          (if 0 < lines_reviewed (coverage (record_all arith (Metrics_init start) rs))
           then ratio_times arith
                  (PyInt (builtin_total (issues (record_all arith (Metrics_init start) rs))))
                  (PyInt (lines_reviewed (coverage (record_all arith (Metrics_init start) rs)))) 1000
           else Inr (PyInt 0)) = Inr density
          \<and> map_of (issues s) ''issues_per_1000_lines'' = Some density)"
proof -
  have "builtin_counters (issues (Metrics_init start :: 'a metrics))"
    by (simp add: builtin_counters_def Metrics_init_def zero_issue_counts_def)
  then have "builtin_counters (issues (record_all arith (Metrics_init start) rs))"
    by (rule record_all_builtin_counters)
  then show ?thesis using assms by (rule first_snapshot_total)
qed

text \<open>
  The theorem after one file of 8 lines and three issues, one of them of an unknown
  type for a file never recorded: the total is 3 and the density \<open>3 / 8 * 1000\<close>.
\<close>

theorem first_snapshot_after_recordings_witness:
  "\<exists>s. fst (get_metrics exact_arith 9
         (record_all exact_arith (Metrics_init 0)
            [RecordFileReview ''f.py'' 8 8,
             RecordIssue ''security'' ''f.py'' (Some 1) None,
             RecordIssue ''style'' ''f.py'' (Some 2) None,
             RecordIssue ''unknown'' ''g.py'' None None])) = Inr s
     \<and> map_of (issues s) ''total'' = Some (PyInt 3)
     \<and> map_of (issues s) ''issues_per_1000_lines'' = Some (PyFloat 375)"
proof -
  let ?m = "record_all exact_arith (Metrics_init 0)
            [RecordFileReview ''f.py'' 8 8,
             RecordIssue ''security'' ''f.py'' (Some 1) None,
             RecordIssue ''style'' ''f.py'' (Some 2) None,
             RecordIssue ''unknown'' ''g.py'' None None]"
  have i: "issues ?m = [(''security'', PyInt 1), (''performance'', PyInt 0), (''style'', PyInt 1),
      (''logic'', PyInt 0), (''other'', PyInt 1)]"
    by (simp add: record_all_def record_issue_def record_file_review_def Metrics_init_def
        zero_issue_counts_def increment_def increment_int_def ratio_times_def exact_arith_def
        Let_def)
  have c: "coverage ?m = \<lparr> files_reviewed = 1, lines_reviewed = 8, total_files = 0,
      total_lines = 0, file_coverage_percent = None, line_coverage_percent = None \<rparr>"
    by (simp add: record_all_def record_issue_def record_file_review_def Metrics_init_def
        zero_issue_counts_def increment_def increment_int_def ratio_times_def exact_arith_def
        Let_def)
  have r: "ratio_times exact_arith (PyInt 3) (PyInt 8) 1000 = Inr (PyFloat 375)"
    by (simp add: ratio_times_def exact_arith_def)
  obtain s where s: "fst (get_metrics exact_arith 9 ?m) = Inr s"
    by (simp add: get_metrics_def i c py_sum_def r Let_def)
  have b: "builtin_total (issues ?m) = 3"
    by (simp add: i builtin_total_def)
  show ?thesis
    using s first_snapshot_after_recordings [where arith = exact_arith and now = 9
        and start = 0 and s = s
        and rs = "[RecordFileReview ''f.py'' 8 8,
             RecordIssue ''security'' ''f.py'' (Some 1) None,
             RecordIssue ''style'' ''f.py'' (Some 2) None,
             RecordIssue ''unknown'' ''g.py'' None None]"]
    by (auto simp: b c r)
qed

section \<open>The complexity calculator\<close>

text \<open>
  \<open>ast.walk\<close> yields every node of the subtree exactly once, in breadth-first order.
\<close>

lemma mset_subtree:
  "mset (subtree n) = add_mset n (mset (concat (map subtree (iter_child_nodes n))))"
proof -
  have "subtree n = n # concat (map subtree (iter_child_nodes n))"
    by (rule subtree.simps)
  then have "mset (subtree n) = mset (n # concat (map subtree (iter_child_nodes n)))"
    by (rule arg_cong)
  then show ?thesis
    by (simp only: mset.simps)
qed

lemma mset_walk_queue: "mset (walk_queue todo) = mset (concat (map subtree todo))"
proof (induction todo rule: walk_queue.induct)
  case 1
  show ?case by simp
next
  case (2 n todo)
  have "mset (walk_queue (n # todo)) = add_mset n (mset (concat (map subtree (todo @ iter_child_nodes n))))"
    using "2.IH" by simp
  also have "\<dots> = add_mset n (mset (concat (map subtree (iter_child_nodes n)))) + mset (concat (map subtree todo))"
    by simp
  also have "\<dots> = mset (subtree n) + mset (concat (map subtree todo))"
    by (simp only: mset_subtree)
  finally show ?case
    by (simp only: list.map concat.simps mset_append)
qed

lemma mset_walk: "mset (walk n) = mset (subtree n)"
  by (simp only: walk_def mset_walk_queue list.map concat.simps append_Nil2)

lemma complexity_step_add: "complexity_step c n = c + complexity_step 0 n"
  by (cases n) simp_all

lemma foldl_complexity_step:
  "foldl complexity_step c ns = c + sum_list (map (complexity_step 0) ns)"
proof (induction ns arbitrary: c)
  case Nil
  show ?case by simp
next
  case (Cons n ns)
  show ?case
    using Cons.IH [of "complexity_step c n"] complexity_step_add [of c n] by simp
qed

lemma sum_list_mset_cong:
  fixes w :: "node \<Rightarrow> 'a::comm_monoid_add"
  assumes "mset xs = mset ys"
  shows "sum_list (map w xs) = sum_list (map w ys)"
proof -
  have "sum_list (map w xs) = sum_mset (image_mset w (mset xs))"
    by (metis mset_map sum_mset_sum_list)
  also have "\<dots> = sum_mset (image_mset w (mset ys))"
    using assms by simp
  also have "\<dots> = sum_list (map w ys)"
    by (metis mset_map sum_mset_sum_list)
  finally show ?thesis .
qed

lemma weight_split:
  "sum_list (map (complexity_step 0) ns) =
     int (length (filter is_branch ns)) +
     sum_list (map (\<lambda>b. int (operand_count b) - 1) (filter is_and_chain ns))"
proof (induction ns)
  case Nil
  show ?case by simp
next
  case (Cons n ns)
  then show ?case by (cases n) simp_all
qed

lemma chain_extra_nonneg:
  "list_all chain_parsed ns \<Longrightarrow>
     0 \<le> sum_list (map (\<lambda>b. int (operand_count b) - 1) (filter is_and_chain ns))"
proof (induction ns)
  case Nil
  show ?case by simp
next
  case (Cons n ns)
  then show ?case by (cases n) simp_all
qed

lemma complexity_eq:
  "calculate_complexity f = 1 + int (count_branches f) + and_chain_extra f"
proof -
  have "calculate_complexity f = 1 + sum_list (map (complexity_step 0) (walk f))"
    by (simp add: calculate_complexity_def foldl_complexity_step)
  also have "sum_list (map (complexity_step 0) (walk f)) = sum_list (map (complexity_step 0) (subtree f))"
    by (rule sum_list_mset_cong) (rule mset_walk)
  finally show ?thesis
    by (simp add: weight_split count_branches_def and_chain_extra_def and_chains_def)
qed

text \<open>
  C7. For every node, in particular every function node, the computed complexity is 1 plus
  the number of \<open>if\<close>, \<open>while\<close> and \<open>for\<close> statements anywhere in its subtree plus, for
  each boolean expression chained by \<open>and\<close> with \<open>k\<close> operands, \<open>k - 1\<close>. Without such
  chains it is the number of those statements plus 1. It is at least 1 on every tree
  the parser builds, where each boolean expression has at least two operands.
\<close>

theorem calculate_complexity_formula:
  "calculate_complexity f = 1 + int (count_branches f) + and_chain_extra f
   \<and> (and_chains f = [] \<longrightarrow> calculate_complexity f = int (count_branches f) + 1)
   \<and> (parsed_chains f \<longrightarrow> 1 \<le> calculate_complexity f)"
proof (intro conjI impI)
  show "calculate_complexity f = 1 + int (count_branches f) + and_chain_extra f"
    by (rule complexity_eq)
next
  assume "and_chains f = []"
  then show "calculate_complexity f = int (count_branches f) + 1"
    by (simp add: complexity_eq and_chain_extra_def)
next
  assume "parsed_chains f"
  then have "0 \<le> and_chain_extra f"
    unfolding parsed_chains_def and_chain_extra_def and_chains_def by (rule chain_extra_nonneg)
  then show "1 \<le> calculate_complexity f"
    by (simp add: complexity_eq)
qed

text \<open>
  The theorem at two function nodes: one with an \<open>if\<close>, a \<open>for\<close> and a \<open>while\<close> and no
  boolean expression, one with an \<open>if\<close> whose test chains three operands by \<open>and\<close>.
\<close>

theorem calculate_complexity_formula_witness:
  "and_chains (ast_FunctionDef ''f'' 1 [ast_Other []]
       [ast_If 2 [ast_Other [], ast_For 3 [ast_Other [], ast_While 4 [ast_Other []]]]] []) = []
   \<and> calculate_complexity (ast_FunctionDef ''f'' 1 [ast_Other []]
       [ast_If 2 [ast_Other [], ast_For 3 [ast_Other [], ast_While 4 [ast_Other []]]]] []) = 3 + 1
   \<and> parsed_chains (ast_FunctionDef ''g'' 1 [ast_Other []]
       [ast_If 2 [ast_BoolOp 2 ast_And [ast_Other [], ast_Other [], ast_Other []], ast_Other []]] [])
   \<and> 1 \<le> calculate_complexity (ast_FunctionDef ''g'' 1 [ast_Other []]
       [ast_If 2 [ast_BoolOp 2 ast_And [ast_Other [], ast_Other [], ast_Other []], ast_Other []]] [])
   \<and> calculate_complexity (ast_FunctionDef ''g'' 1 [ast_Other []]
       [ast_If 2 [ast_BoolOp 2 ast_And [ast_Other [], ast_Other [], ast_Other []], ast_Other []]] []) = 1 + 1 + 2"
proof -
  let ?f = "ast_FunctionDef ''f'' 1 [ast_Other []]
       [ast_If 2 [ast_Other [], ast_For 3 [ast_Other [], ast_While 4 [ast_Other []]]]] []"
  let ?g = "ast_FunctionDef ''g'' 1 [ast_Other []]
       [ast_If 2 [ast_BoolOp 2 ast_And [ast_Other [], ast_Other [], ast_Other []], ast_Other []]] []"
  have f1: "and_chains ?f = []" by code_simp
  have f2: "count_branches ?f = 3" by code_simp
  have g1: "parsed_chains ?g" by code_simp
  have g2: "count_branches ?g = 1" by code_simp
  have g3: "and_chain_extra ?g = 2" by code_simp
  show ?thesis
    using calculate_complexity_formula [of ?f] calculate_complexity_formula [of ?g] f1 f2 g1 g2 g3
    by simp
qed

section \<open>The metrics recorder: recording a file review\<close>

lemma map_of_update_same: "map_of (AList.update k v al) k = Some v"
  by (simp add: update_conv')

text \<open>
  C6, as amended. Every call \<open>record_file_review(filename, lines_reviewed, total_lines)\<close>,
  on any recorder and so also when the file name was recorded before, adds 1 to
  \<open>files_reviewed\<close> and \<open>lines_reviewed\<close> to the counter of that name. When
  \<open>total_lines\<close> is not positive (so when it is 0) the call stores for \<open>filename\<close> a
  fresh file metric with \<open>coverage_percent\<close> the int 100. When \<open>total_lines\<close> is positive
  and the float division \<open>lines_reviewed / total_lines\<close> returns \<open>q\<close>, it stores a fresh
  file metric with \<open>coverage_percent\<close> the float \<open>q * 100\<close>. When that division raises,
  the exception leaves the call and the file metrics are as before. A fresh file metric
  has the two line counts, \<open>review_time\<close> unset, the five per-file issue counters at zero
  and no issue details.
\<close>

theorem record_file_review_effect:
  "files_reviewed (coverage (snd (record_file_review arith filename lines_rev total_lns m))) =
     files_reviewed (coverage m) + 1
   \<and> lines_reviewed (coverage (snd (record_file_review arith filename lines_rev total_lns m))) =
     lines_reviewed (coverage m) + lines_rev
   \<and> (total_lns \<le> 0 \<longrightarrow>
        fst (record_file_review arith filename lines_rev total_lns m) = None
        \<and> map_of (file_metrics (snd (record_file_review arith filename lines_rev total_lns m)))
             filename = Some (fresh_file_metric lines_rev total_lns (PyInt 100)))
   \<and> (\<forall>q. 0 < total_lns \<and> truediv arith (PyInt lines_rev) (PyInt total_lns) = Inr q \<longrightarrow>
        fst (record_file_review arith filename lines_rev total_lns m) = None
        \<and> map_of (file_metrics (snd (record_file_review arith filename lines_rev total_lns m)))
             filename =
            Some (fresh_file_metric lines_rev total_lns (PyFloat (fmul_int arith q 100))))
   \<and> (\<forall>e. 0 < total_lns \<and> truediv arith (PyInt lines_rev) (PyInt total_lns) = Inl e \<longrightarrow>
        fst (record_file_review arith filename lines_rev total_lns m) = Some e
        \<and> file_metrics (snd (record_file_review arith filename lines_rev total_lns m)) =
            file_metrics m)"
proof (intro conjI allI impI)
  show "files_reviewed (coverage (snd (record_file_review arith filename lines_rev total_lns m))) =
     files_reviewed (coverage m) + 1"
    by (simp add: record_file_review_def Let_def split: sum.splits)
  show "lines_reviewed (coverage (snd (record_file_review arith filename lines_rev total_lns m))) =
     lines_reviewed (coverage m) + lines_rev"
    by (simp add: record_file_review_def Let_def split: sum.splits)
next
  assume "total_lns \<le> 0"
  then show "fst (record_file_review arith filename lines_rev total_lns m) = None"
    and "map_of (file_metrics (snd (record_file_review arith filename lines_rev total_lns m)))
             filename = Some (fresh_file_metric lines_rev total_lns (PyInt 100))"
    by (simp_all add: record_file_review_def Let_def fresh_file_metric_def map_of_update_same)
next
  fix q
  assume "0 < total_lns \<and> truediv arith (PyInt lines_rev) (PyInt total_lns) = Inr q"
  then show "fst (record_file_review arith filename lines_rev total_lns m) = None"
    and "map_of (file_metrics (snd (record_file_review arith filename lines_rev total_lns m)))
             filename =
            Some (fresh_file_metric lines_rev total_lns (PyFloat (fmul_int arith q 100)))"
    by (simp_all add: record_file_review_def Let_def fresh_file_metric_def map_of_update_same
        ratio_times_def)
next
  fix e
  assume "0 < total_lns \<and> truediv arith (PyInt lines_rev) (PyInt total_lns) = Inl e"
  then show "fst (record_file_review arith filename lines_rev total_lns m) = Some e"
    and "file_metrics (snd (record_file_review arith filename lines_rev total_lns m)) =
            file_metrics m"
    by (simp_all add: record_file_review_def Let_def ratio_times_def)
qed

text \<open>
  The theorem at an empty file, at a file with 10 of 20 lines reviewed that is recorded
  twice, and at a number of lines too large for a float.
\<close>

theorem record_file_review_effect_witness:
  "(0::int) \<le> 0
   \<and> map_of (file_metrics (snd (record_file_review exact_arith ''empty.py'' 0 0 (Metrics_init 0))))
       ''empty.py'' = Some (fresh_file_metric 0 0 (PyInt 100))
   \<and> (0::int) < 20
   \<and> truediv exact_arith (PyInt 10) (PyInt 20) = Inr (1 / 2)
   \<and> map_of (file_metrics (snd (record_file_review exact_arith ''f.py'' 10 20 (Metrics_init 0))))
       ''f.py'' = Some (fresh_file_metric 10 20 (PyFloat 50))
   \<and> files_reviewed (coverage (snd (record_file_review exact_arith ''f.py'' 10 20
         (snd (record_file_review exact_arith ''f.py'' 10 20 (Metrics_init 0)))))) = 2
   \<and> lines_reviewed (coverage (snd (record_file_review exact_arith ''f.py'' 10 20
         (snd (record_file_review exact_arith ''f.py'' 10 20 (Metrics_init 0)))))) = 20
   \<and> (0::int) < 1
   \<and> truediv exact_arith (PyInt (2 ^ 1024)) (PyInt 1) =
       Inl (OtherError ''OverflowError'' ''integer division result too large for a float'')
   \<and> fst (record_file_review exact_arith ''huge.py'' (2 ^ 1024) 1 (Metrics_init 0)) =
       Some (OtherError ''OverflowError'' ''integer division result too large for a float'')
   \<and> file_metrics (snd (record_file_review exact_arith ''huge.py'' (2 ^ 1024) 1 (Metrics_init 0))) = []
   \<and> files_reviewed (coverage (snd (record_file_review exact_arith ''huge.py'' (2 ^ 1024) 1
         (Metrics_init 0)))) = 1"
proof -
  let ?m0 = "Metrics_init 0 :: rat metrics"
  let ?m1 = "snd (record_file_review exact_arith ''f.py'' 10 20 ?m0)"
  have q: "truediv exact_arith (PyInt 10) (PyInt 20) = Inr (1 / 2)"
    by (simp add: exact_arith_def)
  have o: "truediv exact_arith (PyInt (2 ^ 1024)) (PyInt 1) =
       Inl (OtherError ''OverflowError'' ''integer division result too large for a float'')"
    by (simp add: exact_arith_def)
  have f: "fmul_int exact_arith (1 / 2) 100 = 50"
    by (simp add: exact_arith_def)
  have c0: "files_reviewed (coverage ?m0) = 0" "lines_reviewed (coverage ?m0) = 0"
    "file_metrics ?m0 = []"
    by (simp_all add: Metrics_init_def)
  note e0 = record_file_review_effect [where arith = exact_arith and filename = "''empty.py''"
        and lines_rev = 0 and total_lns = 0 and m = ?m0]
  note e1 = record_file_review_effect [where arith = exact_arith and filename = "''f.py''"
        and lines_rev = 10 and total_lns = 20 and m = ?m0]
  note e2 = record_file_review_effect [where arith = exact_arith and filename = "''f.py''"
        and lines_rev = 10 and total_lns = 20 and m = ?m1]
  note e3 = record_file_review_effect [where arith = exact_arith and filename = "''huge.py''"
        and lines_rev = "2 ^ 1024" and total_lns = 1 and m = ?m0]
  have w0: "map_of (file_metrics (snd (record_file_review exact_arith ''empty.py'' 0 0 ?m0)))
       ''empty.py'' = Some (fresh_file_metric 0 0 (PyInt 100))"
    using e0 order_refl [of "0::int"] by blast
  have "map_of (file_metrics ?m1) ''f.py'' =
      Some (fresh_file_metric 10 20 (PyFloat (fmul_int exact_arith (1 / 2) 100)))"
    using e1 q zero_less_numeral [where 'a = int and n = "num.Bit0 (num.Bit0 (num.Bit1 (num.Bit0 num.One)))"] by blast
  then have w1: "map_of (file_metrics ?m1) ''f.py'' = Some (fresh_file_metric 10 20 (PyFloat 50))"
    by (simp only: f)
  have c1: "files_reviewed (coverage ?m1) = 1" "lines_reviewed (coverage ?m1) = 10"
    using e1 c0 by simp_all
  have w2: "files_reviewed (coverage (snd (record_file_review exact_arith ''f.py'' 10 20 ?m1))) = 2"
    "lines_reviewed (coverage (snd (record_file_review exact_arith ''f.py'' 10 20 ?m1))) = 20"
    using e2 c1 by simp_all
  have w3: "fst (record_file_review exact_arith ''huge.py'' (2 ^ 1024) 1 ?m0) =
       Some (OtherError ''OverflowError'' ''integer division result too large for a float'')"
    "file_metrics (snd (record_file_review exact_arith ''huge.py'' (2 ^ 1024) 1 ?m0)) = []"
    using e3 o c0(3) zero_less_one [where 'a = int] by auto
  have w4: "files_reviewed (coverage (snd (record_file_review exact_arith ''huge.py'' (2 ^ 1024) 1
         ?m0))) = 1"
    using e3 c0 by simp
  show ?thesis
    using q o w0 w1 w2 w3 w4 by simp
qed

text \<open>
  The claim as stated says that the call does not touch \<open>review_time\<close>. On the code, a
  review time of 2 seconds set by a timing observation for \<open>f.py\<close> is unset again by the
  next \<open>record_file_review\<close> for \<open>f.py\<close>.
\<close>

theorem record_file_review_resets_review_time:
  "map_option review_time
     (map_of (file_metrics
        (timed ''analysis'' (Some ''f.py'') 2
           (snd (record_file_review exact_arith ''f.py'' 10 20 (Metrics_init 0)))))
      ''f.py'') = Some (Some 2)
   \<and> map_option review_time
     (map_of (file_metrics
        (snd (record_file_review exact_arith ''f.py'' 10 20
           (timed ''analysis'' (Some ''f.py'') 2
              (snd (record_file_review exact_arith ''f.py'' 10 20 (Metrics_init 0)))))))
      ''f.py'') = Some None"
  by (simp add: record_file_review_def timed_def Metrics_init_def ratio_times_def exact_arith_def
      Let_def)

section \<open>The docstring rule\<close>

lemma check_docstrings_nodes_documented:
  "list_all module_documented ns \<Longrightarrow>
     check_docstrings_nodes file_path ns so_far =
       (None, so_far @ concat (map (expected_docstring_issues file_path) ns))"
proof (induction ns arbitrary: so_far)
  case Nil
  show ?case by simp
next
  case (Cons n ns)
  then show ?case by (cases n) (simp_all add: docstring_issue_def)
qed

lemma list_all_mset_cong:
  assumes "mset xs = mset ys" and "list_all P xs"
  shows "list_all P ys"
  using assms by (metis list_all_iff mset_eq_setD)

lemma mset_concat_map:
  "mset (concat (map f xs)) = sum_list (map (\<lambda>x. mset (f x)) xs)"
  by (induction xs) simp_all

text \<open>
  C9, as amended. For every tree in which each module node starts with a docstring, the
  docstring rule raises nothing and appends exactly one issue of category Documentation
  and severity Medium, at the node's line, for each class node and each function node of
  the tree whose body does not start with a bare string literal, except the functions
  whose name starts with an underscore: one underscore or several, so a function named
  \<open>__init__\<close> is passed over as well. Classes are never passed over.
\<close>

theorem check_docstrings_reports:
  assumes "list_all module_documented (subtree tree)"
  shows "fst (check_docstrings file_path tree so_far) = None
     \<and> mset (snd (check_docstrings file_path tree so_far)) =
         mset so_far + mset (concat (map (expected_docstring_issues file_path) (subtree tree)))"
proof -
  have "list_all module_documented (walk tree)"
    using assms by (rule list_all_mset_cong [OF mset_walk [symmetric]])
  then have eq: "check_docstrings file_path tree so_far =
      (None, so_far @ concat (map (expected_docstring_issues file_path) (walk tree)))"
    unfolding check_docstrings_def by (rule check_docstrings_nodes_documented)
  have "mset (concat (map (expected_docstring_issues file_path) (walk tree))) =
        mset (concat (map (expected_docstring_issues file_path) (subtree tree)))"
    unfolding mset_concat_map by (rule sum_list_mset_cong) (rule mset_walk)
  with eq show ?thesis by simp
qed

text \<open>
  The theorem at a module with a docstring that holds a class \<open>Job\<close> with the methods
  \<open>run\<close> and \<open>_help\<close>, none of them documented: the class and \<open>run\<close> are reported.
\<close>

theorem check_docstrings_reports_witness:
  "list_all module_documented
     (subtree (ast_Module
        [ast_Expr 1 (ast_Str 1),
         ast_ClassDef ''Job'' 2 []
           [ast_FunctionDef ''run'' 3 [ast_Other [ast_Other []]] [ast_Other []] [],
            ast_FunctionDef ''_help'' 5 [ast_Other [ast_Other []]] [ast_Other []] []] []] []))
   \<and> fst (check_docstrings ''c.py''
       (ast_Module
        [ast_Expr 1 (ast_Str 1),
         ast_ClassDef ''Job'' 2 []
           [ast_FunctionDef ''run'' 3 [ast_Other [ast_Other []]] [ast_Other []] [],
            ast_FunctionDef ''_help'' 5 [ast_Other [ast_Other []]] [ast_Other []] []] []] []) []) = None
   \<and> mset (snd (check_docstrings ''c.py''
       (ast_Module
        [ast_Expr 1 (ast_Str 1),
         ast_ClassDef ''Job'' 2 []
           [ast_FunctionDef ''run'' 3 [ast_Other [ast_Other []]] [ast_Other []] [],
            ast_FunctionDef ''_help'' 5 [ast_Other [ast_Other []]] [ast_Other []] []] []] []) [])) =
       mset [\<lparr> issue_file = ''c.py'', line = Some 2, category = ''Documentation'',
                severity = ''Medium'',
                message = ''Missing docstring for class '' @ [squote] @ ''Job'' @ [squote] \<rparr>,
             \<lparr> issue_file = ''c.py'', line = Some 3, category = ''Documentation'',
                severity = ''Medium'',
                message = ''Missing docstring for function '' @ [squote] @ ''run'' @ [squote] \<rparr>]"
proof -
  let ?t = "ast_Module
        [ast_Expr 1 (ast_Str 1),
         ast_ClassDef ''Job'' 2 []
           [ast_FunctionDef ''run'' 3 [ast_Other [ast_Other []]] [ast_Other []] [],
            ast_FunctionDef ''_help'' 5 [ast_Other [ast_Other []]] [ast_Other []] []] []] []"
  have h: "list_all module_documented (subtree ?t)"
    by code_simp
  have e: "concat (map (expected_docstring_issues ''c.py'') (subtree ?t)) =
      [\<lparr> issue_file = ''c.py'', line = Some 2, category = ''Documentation'',
                severity = ''Medium'',
                message = ''Missing docstring for class '' @ [squote] @ ''Job'' @ [squote] \<rparr>,
             \<lparr> issue_file = ''c.py'', line = Some 3, category = ''Documentation'',
                severity = ''Medium'',
                message = ''Missing docstring for function '' @ [squote] @ ''run'' @ [squote] \<rparr>]"
    by code_simp
  show ?thesis
    using h e check_docstrings_reports [where tree = ?t and file_path = "''c.py''" and so_far = "[]"]
    by simp
qed

text \<open>
  The claim as stated has a function named \<open>__init__\<close> without a docstring reported. On
  the code, the module of \<open>b.py\<close> (a docstring, then \<open>def __init__(self): pass\<close>) gets no
  issue at all.
\<close>

theorem dunder_function_not_reported:
  "check_docstrings ''b.py'' dunder_tree [] = (None, [])
   \<and> ast_FunctionDef ''__init__'' 2 [ast_Other [ast_Other []]] [ast_Other []] [] \<in> set (subtree dunder_tree)
   \<and> \<not> has_docstring [ast_Other []]
   \<and> startswith ''__init__'' ''__''"
  by code_simp

section \<open>Reviewing a file\<close>

lemma load_template_ignores_issues:
  "load_template read_text (self \<lparr> self_issues := found \<rparr>) template_name =
   load_template read_text self template_name"
  by (simp add: load_template_def)

lemma review_python_file_undocumented_module:
  assumes "ast_parse content = Inr (ast_Module body type_ignores)" and "\<not> has_docstring body"
  shows "fst (review_python_file ast_parse file_path content so_far) \<noteq> None"
  using assms
  by (simp add: review_python_file_def check_docstrings_def walk_def on_syntax_error_def)

lemma review_file_body_undocumented_module:
  assumes "read_text file_path = Inr content"
      and "lower (splitext_ext file_path) = ''.py''"
      and "ast_parse content = Inr (ast_Module body type_ignores)"
      and "\<not> has_docstring body"
  shows "fst (review_file_body read_text ast_parse file_path self) \<noteq> None
     \<and> stats (snd (review_file_body read_text ast_parse file_path self)) = stats self"
proof -
  obtain e found where r: "review_python_file ast_parse file_path content (self_issues self) = (Some e, found)"
    using assms(3,4)
      review_python_file_undocumented_module [where ast_parse = ast_parse and content = content
        and body = body and type_ignores = type_ignores and file_path = file_path
        and so_far = "self_issues self"]
    by (cases "review_python_file ast_parse file_path content (self_issues self)") auto
  show ?thesis
    using assms(1,2) r by (simp add: review_file_body_def)
qed

text \<open>
  C4. For every \<open>.py\<close> file that can be read and parsed and whose module body does not
  start with a bare string literal, \<open>review_file\<close> returns the empty list and leaves the
  statistics as they were, whatever the other rules would find: the docstring rule reads
  the line number of the module node, the error reaches the handler of \<open>review_file\<close>,
  and the findings collected so far are not returned. The template is one whose loading
  does not raise.
\<close>

theorem review_file_undocumented_module:
  assumes "\<not> isl (fst (load_template read_text self template_name))"
      and "read_text file_path = Inr content"
      and "lower (splitext_ext file_path) = ''.py''"
      and "ast_parse content = Inr (ast_Module body type_ignores)"
      and "\<not> has_docstring body"
  shows "fst (review_file read_text ast_parse file_path template_name self) = Inr []
     \<and> stats (snd (snd (review_file read_text ast_parse file_path template_name self))) = stats self"
proof -
  let ?self1 = "self \<lparr> self_issues := [] \<rparr>"
  obtain t logged where lt: "load_template read_text ?self1 template_name = (Inr t, logged)"
    using assms(1)
    by (cases "load_template read_text self template_name";
        cases "fst (load_template read_text self template_name)")
       (auto simp: load_template_ignores_issues)
  show ?thesis
  proof (cases "t = []")
    case True
    with lt show ?thesis by (simp add: review_file_def)
  next
    case False
    obtain e self2 where b: "review_file_body read_text ast_parse file_path ?self1 = (Some e, self2)"
      and s: "stats self2 = stats self"
      using assms(2-5)
        review_file_body_undocumented_module [where read_text = read_text and file_path = file_path
          and content = content and ast_parse = ast_parse and body = body
          and type_ignores = type_ignores and self = ?self1]
      by (cases "review_file_body read_text ast_parse file_path ?self1") auto
    from lt False b s show ?thesis by (simp add: review_file_def)
  qed
qed

text \<open>The theorem at the file \<open>a.py\<close>, reviewed with the template \<open>general\<close>.\<close>

theorem review_file_undocumented_module_witness:
  "\<not> isl (fst (load_template example_read_text (CodeReviewer_init ''templates'') ''general''))
   \<and> example_read_text ''a.py'' = Inr example_source
   \<and> lower (splitext_ext ''a.py'') = ''.py''
   \<and> example_parse example_source =
       Inr (ast_Module [ast_Other [ast_Other [ast_Other []], ast_Str 1]] [])
   \<and> \<not> has_docstring [ast_Other [ast_Other [ast_Other []], ast_Str 1]]
   \<and> fst (review_file example_read_text example_parse ''a.py'' ''general''
            (CodeReviewer_init ''templates'')) = Inr []
   \<and> stats (snd (snd (review_file example_read_text example_parse ''a.py'' ''general''
            (CodeReviewer_init ''templates'')))) = stats (CodeReviewer_init ''templates'')"
proof -
  have h1: "\<not> isl (fst (load_template example_read_text (CodeReviewer_init ''templates'') ''general''))"
    by code_simp
  have h2: "example_read_text ''a.py'' = Inr example_source"
    by (simp add: example_read_text_def)
  have h3: "lower (splitext_ext ''a.py'') = ''.py''"
    by code_simp
  have h4: "example_parse example_source =
       Inr (ast_Module [ast_Other [ast_Other [ast_Other []], ast_Str 1]] [])"
    by (simp add: example_parse_def example_tree_def)
  have h5: "\<not> has_docstring [ast_Other [ast_Other [ast_Other []], ast_Str 1]]"
    by simp
  show ?thesis
    using h1 h2 h3 h4 h5
      review_file_undocumented_module [where read_text = example_read_text
        and self = "CodeReviewer_init ''templates''" and template_name = "''general''"
        and file_path = "''a.py''" and content = example_source and ast_parse = example_parse
        and body = "[ast_Other [ast_Other [ast_Other []], ast_Str 1]]" and type_ignores = "[]"]
    by simp
qed

text \<open>
  C3. The claim: a \<open>.py\<close> file containing \<open>password = "literal"\<close> yields exactly one
  issue, of category Security and severity High, at the line of the assignment. The
  code at the file \<open>a.py\<close>, whose only line is \<open>password = "abc"\<close>: the credential rule
  finds the issue at line 1, and \<open>review_file\<close> returns the empty list, because the
  module has no docstring and the docstring rule raises.
\<close>

theorem password_file_without_docstring_yields_nothing:
  "example_parse example_source = Inr example_tree
   \<and> check_hardcoded_credentials ''a.py'' example_source [] =
       [\<lparr> issue_file = ''a.py'', line = Some 1, category = ''Security'', severity = ''High'',
          message = ''Potential hardcoded credential detected'' \<rparr>]
   \<and> fst (review_file example_read_text example_parse ''a.py'' ''general''
            (CodeReviewer_init ''templates'')) = Inr []"
  by code_simp

text \<open>
  C5, as amended. When the named template loads as the empty map, as it does when its
  file is not found, \<open>review_file\<close> logs that it failed to load the template (after the
  line \<open>load_template\<close> logged) and returns the empty list at once: no file is read, no
  rule runs, the statistics stay as they were and \<open>self.issues\<close> is empty.
\<close>

theorem review_file_empty_template:
  assumes "fst (load_template read_text self template_name) = Inr []"
  shows "review_file read_text ast_parse file_path template_name self =
           (Inr [],
            snd (load_template read_text self template_name) @
              [''Failed to load template '' @ template_name],
            self \<lparr> self_issues := [] \<rparr>)"
  using assms
  by (cases "load_template read_text self template_name")
     (simp add: review_file_def load_template_ignores_issues)

text \<open>The theorem at the template name \<open>missing\<close>, for which there is no file.\<close>

theorem review_file_empty_template_witness:
  "fst (load_template example_read_text (CodeReviewer_init ''templates'') ''missing'') = Inr []
   \<and> review_file example_read_text example_parse ''notes.txt'' ''missing''
        (CodeReviewer_init ''templates'') =
       (Inr [],
        [''Template missing not found at templates/missing.md'',
         ''Failed to load template missing''],
        CodeReviewer_init ''templates'')"
proof -
  have h: "fst (load_template example_read_text (CodeReviewer_init ''templates'') ''missing'') = Inr []"
    by code_simp
  have l: "snd (load_template example_read_text (CodeReviewer_init ''templates'') ''missing'') =
      [''Template missing not found at templates/missing.md'']"
    by code_simp
  have s: "(CodeReviewer_init ''templates'') \<lparr> self_issues := [] \<rparr> = CodeReviewer_init ''templates''"
    by (simp add: CodeReviewer_init_def)
  show ?thesis
    using h l s
      review_file_empty_template [where read_text = example_read_text
        and self = "CodeReviewer_init ''templates''" and template_name = "''missing''"
        and ast_parse = example_parse and file_path = "''notes.txt''"]
    by simp
qed

text \<open>
  The claim as stated has the rules run all the same. On the code, the file
  \<open>notes.txt\<close> yields one issue with the template \<open>general\<close> and none with the template
  \<open>missing\<close>.
\<close>

theorem missing_template_skips_checks:
  "fst (load_template example_read_text (CodeReviewer_init ''templates'') ''missing'') = Inr []
   \<and> fst (load_template example_read_text (CodeReviewer_init ''templates'') ''general'') \<noteq> Inr []
   \<and> fst (review_file example_read_text example_parse ''notes.txt'' ''missing''
            (CodeReviewer_init ''templates'')) = Inr []
   \<and> fst (review_file example_read_text example_parse ''notes.txt'' ''general''
            (CodeReviewer_init ''templates'')) =
       Inr [\<lparr> issue_file = ''notes.txt'', line = Some 1, category = ''Style'', severity = ''Low'',
              message = ''Line has trailing whitespace'' \<rparr>]"
  by code_simp

text \<open>
  C10. The claim: \<open>review_file\<close> never raises an exception to its caller. The code at a
  template file that exists and cannot be read (\<open>templates/locked.md\<close>, permission
  denied): \<open>load_template\<close> catches \<open>FileNotFoundError\<close> only and is called before the
  \<open>try\<close> of \<open>review_file\<close>, so the exception reaches the caller.
\<close>

theorem unreadable_template_raises:
  "fst (review_file example_read_text example_parse ''a.py'' ''locked''
          (CodeReviewer_init ''templates'')) =
     Inl (OtherError ''PermissionError'' ''[Errno 13] Permission denied'')"
  by code_simp

text \<open>
  What does hold: whenever loading the template does not raise, \<open>review_file\<close> returns a
  list to its caller, for every file path, file system and parser.
\<close>

theorem review_file_returns_list:
  assumes "\<not> isl (fst (load_template read_text self template_name))"
  shows "\<not> isl (fst (review_file read_text ast_parse file_path template_name self))"
proof -
  let ?self1 = "self \<lparr> self_issues := [] \<rparr>"
  obtain t logged where lt: "load_template read_text ?self1 template_name = (Inr t, logged)"
    using assms
    by (cases "load_template read_text self template_name";
        cases "fst (load_template read_text self template_name)")
       (auto simp: load_template_ignores_issues)
  obtain r self2 where b: "review_file_body read_text ast_parse file_path ?self1 = (r, self2)"
    by (cases "review_file_body read_text ast_parse file_path ?self1")
  from lt b show ?thesis
    by (cases r) (simp_all add: review_file_def Let_def)
qed

text \<open>The theorem at the file \<open>a.py\<close> and the template \<open>general\<close>.\<close>

theorem review_file_returns_list_witness:
  "\<not> isl (fst (load_template example_read_text (CodeReviewer_init ''templates'') ''general''))
   \<and> \<not> isl (fst (review_file example_read_text example_parse ''a.py'' ''general''
                   (CodeReviewer_init ''templates'')))"
proof -
  have h: "\<not> isl (fst (load_template example_read_text (CodeReviewer_init ''templates'') ''general''))"
    by code_simp
  show ?thesis
    using h review_file_returns_list [where read_text = example_read_text
        and self = "CodeReviewer_init ''templates''" and template_name = "''general''"
        and ast_parse = example_parse and file_path = "''a.py''"]
    by simp
qed

text \<open>
  When the file cannot be read, for whatever reason, and loading the template does not
  raise, \<open>review_file\<close> returns the empty list and the statistics (\<open>files_reviewed\<close>,
  \<open>issues_found\<close>, the counts by category) are unchanged.
\<close>

theorem review_file_unreadable_file:
  assumes "\<not> isl (fst (load_template read_text self template_name))"
      and "read_text file_path = Inl e"
  shows "fst (review_file read_text ast_parse file_path template_name self) = Inr []
     \<and> stats (snd (snd (review_file read_text ast_parse file_path template_name self))) = stats self"
proof -
  let ?self1 = "self \<lparr> self_issues := [] \<rparr>"
  obtain t logged where lt: "load_template read_text ?self1 template_name = (Inr t, logged)"
    using assms(1)
    by (cases "load_template read_text self template_name";
        cases "fst (load_template read_text self template_name)")
       (auto simp: load_template_ignores_issues)
  from lt assms(2) show ?thesis
    by (simp add: review_file_def review_file_body_def Let_def)
qed

text \<open>The theorem at the path \<open>gone.py\<close>, for which there is no file.\<close>

theorem review_file_unreadable_file_witness:
  "\<not> isl (fst (load_template example_read_text (CodeReviewer_init ''templates'') ''general''))
   \<and> example_read_text ''gone.py'' = Inl (FileNotFoundError ''[Errno 2] No such file or directory'')
   \<and> fst (review_file example_read_text example_parse ''gone.py'' ''general''
            (CodeReviewer_init ''templates'')) = Inr []
   \<and> stats (snd (snd (review_file example_read_text example_parse ''gone.py'' ''general''
            (CodeReviewer_init ''templates'')))) = stats (CodeReviewer_init ''templates'')"
proof -
  have h1: "\<not> isl (fst (load_template example_read_text (CodeReviewer_init ''templates'') ''general''))"
    by code_simp
  have h2: "example_read_text ''gone.py'' = Inl (FileNotFoundError ''[Errno 2] No such file or directory'')"
    by (simp add: example_read_text_def)
  show ?thesis
    using h1 h2 review_file_unreadable_file [where read_text = example_read_text
        and self = "CodeReviewer_init ''templates''" and template_name = "''general''"
        and ast_parse = example_parse and file_path = "''gone.py''"
        and e = "FileNotFoundError ''[Errno 2] No such file or directory''"]
    by simp
qed

section \<open>The report\<close>

text \<open>
  C8. The claim: \<open>generate_review_report([])\<close> returns the fixed "no issues found" text
  whatever the reviewer has accumulated. The code on the reviewer that has just reviewed
  \<open>notes.txt\<close> and holds its one issue: the empty list is replaced by \<open>self.issues\<close>, and
  the report is the full report of that issue, the same as for the argument \<open>None\<close>.
\<close>

theorem empty_list_report_uses_accumulated_issues:
  "self_issues (snd (snd (review_file example_read_text example_parse ''notes.txt'' ''general''
       (CodeReviewer_init ''templates'')))) \<noteq> []
   \<and> generate_review_report (Some [])
       (snd (snd (review_file example_read_text example_parse ''notes.txt'' ''general''
          (CodeReviewer_init ''templates'')))) \<noteq> no_issues_report
   \<and> generate_review_report (Some [])
       (snd (snd (review_file example_read_text example_parse ''notes.txt'' ''general''
          (CodeReviewer_init ''templates'')))) =
     generate_review_report None
       (snd (snd (review_file example_read_text example_parse ''notes.txt'' ''general''
          (CodeReviewer_init ''templates''))))"
  by code_simp

end
